theory Spec2Isabelle
  imports Main "HOL-Library.Sublist"
begin

section \<open>Strings as the TypeScript code uses them\<close>

text \<open>
  A TypeScript string is modelled as a \<open>string\<close> (a list of 8-bit characters), so the
  model covers texts in the Latin-1 range. Numbers that the code interpolates into
  strings (chunk indices and second offsets) are naturals; JavaScript prints a natural
  below \<open>10^21\<close> in plain decimal, which \<open>showNat\<close> does.
\<close>

definition digitChar :: "nat \<Rightarrow> char" where
  "digitChar d = char_of (48 + d)"

function showNat :: "nat \<Rightarrow> string" where
  "showNat n = (if n < 10 then [digitChar n] else showNat (n div 10) @ [digitChar (n mod 10)])"
  by pat_completeness auto
termination
  by (relation "measure id") auto

declare showNat.simps [simp del]

text \<open>
  \<open>String.prototype.trim\<close> removes white space and line terminators at both ends. In
  the Latin-1 range these are TAB, LF, VT, FF, CR, SPACE and NBSP.
\<close>

definition isWhitespace :: "char \<Rightarrow> bool" where
  "isWhitespace c = (of_char c \<in> {9, 10, 11, 12, 13, 32, 160 :: nat})"

definition trim :: "string \<Rightarrow> string" where
  "trim s = rev (dropWhile isWhitespace (rev (dropWhile isWhitespace s)))"

text \<open>A string that \<open>trim\<close> leaves alone: empty, or with no white space at either end.\<close>

definition trimmed :: "string \<Rightarrow> bool" where
  "trimmed s = (s = [] \<or> (\<not> isWhitespace (hd s) \<and> \<not> isWhitespace (last s)))"

text \<open>\<open>hay.includes(needle)\<close>: the needle occurs as a contiguous run of the haystack.\<close>

fun includes_str :: "string \<Rightarrow> string \<Rightarrow> bool" where
  "includes_str [] needle = (needle = [])"
| "includes_str (c # cs) needle = (prefix needle (c # cs) \<or> includes_str cs needle)"

definition startsWith :: "string \<Rightarrow> string \<Rightarrow> bool" where
  "startsWith s p = prefix p s"

text \<open>\<open>parts.join(sep)\<close>.\<close>

fun joinWith :: "string \<Rightarrow> string list \<Rightarrow> string" where
  "joinWith sep [] = []"
| "joinWith sep [x] = x"
| "joinWith sep (x # y # ys) = x @ sep @ joinWith sep (y # ys)"

section \<open>Exceptions, promises and observable effects\<close>

text \<open>
  A caught value is either an \<open>Error\<close> object with its message or something else; the
  handlers print \<open>error instanceof Error ? error.message : fallback\<close>.
\<close>

datatype thrown = ErrorObj string | NonError

fun messageOr :: "string \<Rightarrow> thrown \<Rightarrow> string" where
  "messageOr fallback (ErrorObj m) = m"
| "messageOr fallback NonError = fallback"

datatype 'a promise = Resolved 'a | Rejected thrown

text \<open>Events the server pushes to the client over Socket.io.\<close>

datatype outEvent =
    TranscriptUpdated string string nat
  | AudioReceived nat
  | AudioError string "nat option"
  | TranscriptError string nat
  | SessionStarted string
  | SessionError string
  | SessionPaused string
  | SessionResumed string
  | SessionStopped string

text \<open>
  What a call does besides changing the stores: an audio message written to the primary
  (WebSocket) connection, an invocation of the secondary (REST) module's
  \<open>streamAudioChunk\<close>, the HTTP request that module makes, a call of the external
  summary service, an event emitted to the client's socket, and an event sent to
  the other sockets of a session's room.
\<close>

datatype effect =
    PrimarySend string nat
  | SecondaryCall string nat
  | SecondaryFetch string nat
  | SummaryCall string
  | Emit outEvent
  | Broadcast string outEvent

section \<open>The primary backend: gemini-live-websocket\<close>

text \<open>
  The socket handle is represented by its \<open>readyState\<close>; \<open>None\<close> is the \<open>null\<close>
  handle. The registry \<open>activeSessions\<close> is a map from session ids.
\<close>

datatype readyState = CONNECTING | OPEN | CLOSING | CLOSED

fun readyStateCode :: "readyState \<Rightarrow> nat" where
  "readyStateCode CONNECTING = 0"
| "readyStateCode OPEN = 1"
| "readyStateCode CLOSING = 2"
| "readyStateCode CLOSED = 3"

record LiveSessionConfig =
  geminiWs :: "readyState option"
  transcriptBuffer :: string
  lastChunkIndex :: nat
  isConnected :: bool

type_synonym wsRegistry = "string \<rightharpoonup> LiveSessionConfig"

text \<open>
  What the outside world does during one call of \<open>streamAudioChunk\<close>: an exception
  while the message is built (caught by the outer \<open>try\<close>), an exception of
  \<open>geminiWs.send\<close> (caught by the inner \<open>try\<close>), and whether a \<open>transcript\<close> event
  arrives before the 15 second timer fires (\<open>None\<close> is the timeout). The event is
  raised by the socket's \<open>message\<close> handler, for a transcript that is not blank: the
  handler first appends the transcript to \<open>transcriptBuffer\<close> (after a space when the
  buffer is not empty), then emits \<open>transcript:updated\<close> to the client with the
  session's current chunk index, and only then raises the event that resolves the call.
\<close>

record wsEnv =
  buildThrows :: "thrown option"
  sendThrows :: "thrown option"
  awaited :: "string option"

definition chunkTag :: "nat \<Rightarrow> string" where
  "chunkTag idx = ''[Chunk '' @ showNat idx"

definition hasActiveSession :: "wsRegistry \<Rightarrow> string \<Rightarrow> bool" where
  "hasActiveSession reg sid =
     (case reg sid of
        None \<Rightarrow> False
      | Some session \<Rightarrow> isConnected session = True \<and> geminiWs session \<noteq> None)"

definition streamAudioChunk ::
  "wsEnv \<Rightarrow> wsRegistry \<Rightarrow> string \<Rightarrow> nat list \<Rightarrow> nat \<Rightarrow> nat \<Rightarrow> nat
     \<Rightarrow> string promise \<times> wsRegistry \<times> effect list" where
  "streamAudioChunk env reg sid audioData idx startT endT =
     (case reg sid of
        None \<Rightarrow> (Resolved (chunkTag idx @ '': Session not found]''), reg, [])
      | Some session \<Rightarrow>
          (case geminiWs session of
             None \<Rightarrow> (Resolved (chunkTag idx @ '': WebSocket not initialized]''), reg, [])
           | Some rs \<Rightarrow>
               if rs \<noteq> OPEN then
                 (Resolved (chunkTag idx @ '': WebSocket not connected (state: ''
                              @ showNat (readyStateCode rs) @ '')]''), reg, [])
               else
                 (case buildThrows env of
                    Some e \<Rightarrow>
                      (Resolved (chunkTag idx @ '': Error - '' @ messageOr ''Unknown error'' e @ '']''),
                       reg, [])
                  | None \<Rightarrow>
                      (case sendThrows env of
                         Some e \<Rightarrow>
                           (Resolved (chunkTag idx @ '': Send error - '' @ messageOr ''Unknown'' e @ '']''),
                            reg, [])
                       | None \<Rightarrow>
                           (let session' = session\<lparr>lastChunkIndex := idx\<rparr> in
                            case awaited env of
                              None \<Rightarrow>
                                (Resolved (chunkTag idx @ '': Timeout waiting for transcript]''),
                                 reg(sid \<mapsto> session'), [PrimarySend sid idx])
                            | Some t \<Rightarrow>
                                (Resolved t,
                                 reg(sid \<mapsto> session'\<lparr>transcriptBuffer :=
                                        transcriptBuffer session'
                                          @ (if transcriptBuffer session' \<noteq> [] then '' '' else [])
                                          @ t\<rparr>),
                                 [PrimarySend sid idx,
                                  Emit (TranscriptUpdated sid t (lastChunkIndex session'))]))))))"


text \<open>
  The failure modes of \<open>streamAudioChunk\<close>: unknown session, socket missing or not
  open, an exception while building or sending, or the timeout.
\<close>

definition primaryFails :: "wsEnv \<Rightarrow> wsRegistry \<Rightarrow> string \<Rightarrow> bool" where
  "primaryFails env reg sid =
     (case reg sid of
        None \<Rightarrow> True
      | Some session \<Rightarrow>
          geminiWs session \<noteq> Some OPEN \<or> buildThrows env \<noteq> None
          \<or> sendThrows env \<noteq> None \<or> awaited env = None)"


section \<open>The secondary backend: gemini-live-rest\<close>

record RestSessionConfig =
  restTranscriptBuffer :: string
  restChunkIndex :: nat

type_synonym restRegistry = "string \<rightharpoonup> RestSessionConfig"

text \<open>
  The outcome of the HTTP exchange inside the \<open>try\<close> block: an exception (network
  failure, a non-OK status turned into an \<open>Error\<close>, a body that does not parse), a
  body without \<open>candidates[0].content.parts\<close>, or the texts of the parts
  (\<open>part.text || ""\<close> for each part).
\<close>

datatype restResponse = RestThrows thrown | RestNoParts | RestParts "string list"

record restEnv =
  apiKeySet :: bool
  response :: restResponse

definition hasActiveSessionREST :: "restRegistry \<Rightarrow> string \<Rightarrow> bool" where
  "hasActiveSessionREST reg sid = (reg sid \<noteq> None)"

definition transcriptionError :: "nat \<Rightarrow> thrown \<Rightarrow> string" where
  "transcriptionError idx e =
     chunkTag idx @ '': Transcription error - '' @ messageOr ''Unknown error'' e @ '']''"

definition streamAudioChunkREST ::
  "restEnv \<Rightarrow> restRegistry \<Rightarrow> string \<Rightarrow> nat list \<Rightarrow> nat \<Rightarrow> nat \<Rightarrow> nat
     \<Rightarrow> string promise \<times> effect list" where
  "streamAudioChunkREST env reg sid audioData idx startT endT =
     (case reg sid of
        None \<Rightarrow> (Resolved (chunkTag idx @ '': Session not found]''), [SecondaryCall sid idx])
      | Some session \<Rightarrow>
          if \<not> apiKeySet env then
            (Resolved (transcriptionError idx (ErrorObj ''GEMINI_API_KEY is not set'')),
             [SecondaryCall sid idx])
          else
            (case response env of
               RestThrows e \<Rightarrow>
                 (Resolved (transcriptionError idx e), [SecondaryCall sid idx, SecondaryFetch sid idx])
             | RestNoParts \<Rightarrow>
                 (Resolved (chunkTag idx @ '': No transcript returned from Gemini API]''),
                  [SecondaryCall sid idx, SecondaryFetch sid idx])
             | RestParts texts \<Rightarrow>
                 (let transcript = trim (joinWith '' '' texts) in
                  if transcript \<noteq> [] then
                    (Resolved transcript,
                     [SecondaryCall sid idx, SecondaryFetch sid idx,
                      Emit (TranscriptUpdated sid transcript idx)])
                  else
                    (Resolved (chunkTag idx @ '': No transcript returned from Gemini API]''),
                     [SecondaryCall sid idx, SecondaryFetch sid idx]))))"

section \<open>The persistence collaborator\<close>

datatype SessionStatus = RECORDING | PAUSED | PROCESSING | COMPLETED | FAILED

record AudioChunk =
  sessionId :: string
  chunkIndex :: nat
  audioData :: "nat list"
  startTime :: nat
  endTime :: nat

record TranscriptChunk =
  chunkId :: nat
  sessionId :: string
  chunkIndex :: nat
  transcript :: string
  startTime :: nat
  endTime :: nat

record AppSession =
  userId :: string
  status :: SessionStatus
  transcript :: "string option"
  summary :: "string option"
  stoppedAt :: "nat option"
  completedAt :: "nat option"

text \<open>
  The server's state: the two registries of live backend sessions, the
  \<open>sessionMetadata\<close> map of the Socket.io server, and the two tables. The table
  \<open>transcriptChunk\<close> is a list in insertion order; \<open>findFirst\<close> returns the first
  matching row, \<open>update\<close> rewrites the rows with the given id, \<open>create\<close> appends a
  row with an unused id. The columns \<open>chunkIndex\<close>, \<open>startTime\<close> and \<open>endTime\<close> are
  \<open>INTEGER\<close> (32 bits, signed), and \<open>sessionId\<close> is a foreign key into the table of
  sessions: \<open>create\<close> throws when one of the numbers does not fit or when the session
  has no row. The other calls are taken to succeed, except an update of a session row
  that does not exist. (A \<open>findFirst\<close> for an index that does not fit finds no row
  here, and the \<open>create\<close> that follows throws.)
\<close>

record world =
  wsSessions :: wsRegistry
  restSessions :: restRegistry
  sessionMetadata :: "string \<rightharpoonup> string \<times> nat"
  transcriptChunk :: "TranscriptChunk list"
  appSession :: "string \<rightharpoonup> AppSession"

definition matches :: "string \<Rightarrow> nat \<Rightarrow> TranscriptChunk \<Rightarrow> bool" where
  "matches sid idx row = (TranscriptChunk.sessionId row = sid \<and> TranscriptChunk.chunkIndex row = idx)"

definition findFirst :: "TranscriptChunk list \<Rightarrow> string \<Rightarrow> nat \<Rightarrow> TranscriptChunk option" where
  "findFirst rows sid idx = find (matches sid idx) rows"

definition updateTranscript :: "TranscriptChunk list \<Rightarrow> nat \<Rightarrow> string \<Rightarrow> TranscriptChunk list" where
  "updateTranscript rows i text =
     map (\<lambda>row. if chunkId row = i then row\<lparr>TranscriptChunk.transcript := text\<rparr> else row) rows"

definition freshId :: "TranscriptChunk list \<Rightarrow> nat" where
  "freshId rows = Suc (foldr max (map chunkId rows) 0)"

definition appendChunk ::
  "TranscriptChunk list \<Rightarrow> string \<Rightarrow> nat \<Rightarrow> string \<Rightarrow> nat \<Rightarrow> nat \<Rightarrow> TranscriptChunk list" where
  "appendChunk rows sid idx text startT endT =
     rows @ [\<lparr>chunkId = freshId rows, sessionId = sid, chunkIndex = idx,
              transcript = text, startTime = startT, endTime = endT\<rparr>]"

definition fitsInteger :: "nat \<Rightarrow> bool" where
  "fitsInteger n = (int n \<le> 2147483647)"

definition valueOutOfRange :: thrown where
  "valueOutOfRange = ErrorObj ''Value out of range for the type''"

definition foreignKeyViolated :: thrown where
  "foreignKeyViolated = ErrorObj ''Foreign key constraint violated''"

definition createChunk ::
  "world \<Rightarrow> string \<Rightarrow> nat \<Rightarrow> string \<Rightarrow> nat \<Rightarrow> nat \<Rightarrow> thrown + TranscriptChunk list" where
  "createChunk w sid idx text startT endT =
     (if fitsInteger idx \<and> fitsInteger startT \<and> fitsInteger endT then
        (if appSession w sid = None then Inl foreignKeyViolated
         else Inr (appendChunk (transcriptChunk w) sid idx text startT endT))
      else Inl valueOutOfRange)"

section \<open>The running transcript\<close>

text \<open>
  The header \<open>[<start>s - <end>s]\<close> of a block. The code builds a regular expression
  from it with the brackets escaped; the digits, \<open>s\<close>, space and \<open>-\<close> match
  themselves, so \<open>timeRangePattern.test\<close> is a substring test for the header.
\<close>

definition rangeHeader :: "nat \<Rightarrow> nat \<Rightarrow> string" where
  "rangeHeader startT endT = ''['' @ showNat startT @ ''s - '' @ showNat endT @ ''s]''"

definition notBracket :: "char \<Rightarrow> bool" where
  "notBracket c = (c \<noteq> CHR ''['')"

text \<open>
  \<open>existingTranscript.replace(regex, callback)\<close> with the global pattern
  \<open>(\[<start>s - <end>s\])([^\[]*)\<close>: scanning from the left, every occurrence of
  the header is matched together with the longest following run of characters other
  than \<open>[\<close>; the match is replaced by the header, a line feed, and the run's trimmed
  text joined by one space with the trimmed new text (the trimmed new text alone when
  the run is blank). The scan resumes after the match; other characters are copied.
  The header is an argument here; the test \<open>hdr \<noteq> []\<close> only serves the termination
  proof, since \<open>rangeHeader\<close> is never empty.
\<close>

definition combinedText :: "string \<Rightarrow> string \<Rightarrow> string" where
  "combinedText existingText new =
     (if trim existingText \<noteq> [] then trim existingText @ '' '' @ trim new else trim new)"

function replaceRange :: "string \<Rightarrow> string \<Rightarrow> string \<Rightarrow> string" where
  "replaceRange hdr new [] = []"
| "replaceRange hdr new (c # cs) =
     (if hdr \<noteq> [] \<and> prefix hdr (c # cs) then
        hdr @ [CHR 0x0A] @ combinedText (takeWhile notBracket (drop (length hdr) (c # cs))) new
          @ replaceRange hdr new (dropWhile notBracket (drop (length hdr) (c # cs)))
      else c # replaceRange hdr new cs)"
  by pat_completeness auto
termination
proof (relation "measure (\<lambda>(hdr, new, s). length s)")
  show "wf (measure (\<lambda>(hdr, new, s). length s))"
    by simp
next
  fix hdr new :: string and c cs
  assume "hdr \<noteq> [] \<and> prefix hdr (c # cs)"
  then have "length (drop (length hdr) (c # cs)) < length (c # cs)"
    by (cases hdr) auto
  moreover have "length (dropWhile notBracket (drop (length hdr) (c # cs)))
                   \<le> length (drop (length hdr) (c # cs))"
    by (rule length_dropWhile_le)
  ultimately show "((hdr, new, dropWhile notBracket (drop (length hdr) (c # cs))), hdr, new, c # cs)
                     \<in> measure (\<lambda>(hdr, new, s). length s)"
    by simp
next
  fix hdr new :: string and c :: char and cs :: string
  show "((hdr, new, cs), hdr, new, c # cs) \<in> measure (\<lambda>(hdr, new, s). length s)"
    by simp
qed

declare replaceRange.simps [simp del]

text \<open>
  The update of \<open>session.transcript\<close>, written twice in the source with the same text:
  in \<open>processAudioChunk\<close> and in the \<open>transcript:chunk\<close> handler.
\<close>

definition mergeRunningTranscript :: "string option \<Rightarrow> nat \<Rightarrow> nat \<Rightarrow> string \<Rightarrow> string" where
  "mergeRunningTranscript stored startT endT new =
     (let existingTranscript = (case stored of None \<Rightarrow> [] | Some t \<Rightarrow> t) in
      if includes_str existingTranscript (rangeHeader startT endT) then
        replaceRange (rangeHeader startT endT) new existingTranscript
      else if existingTranscript \<noteq> [] then
        existingTranscript @ [CHR 0x0A, CHR 0x0A] @ rangeHeader startT endT @ [CHR 0x0A] @ new
      else rangeHeader startT endT @ [CHR 0x0A] @ new)"

definition updateSessionTranscript :: "world \<Rightarrow> string \<Rightarrow> nat \<Rightarrow> nat \<Rightarrow> string \<Rightarrow> world" where
  "updateSessionTranscript w sid startT endT new =
     (case appSession w sid of
        None \<Rightarrow> w
      | Some session \<Rightarrow>
          w\<lparr>appSession := (appSession w)(sid \<mapsto>
               session\<lparr>AppSession.transcript :=
                 Some (mergeRunningTranscript (AppSession.transcript session) startT endT new)\<rparr>)\<rparr>)"


section \<open>processAudioChunk\<close>

text \<open>
  The three acceptance tests that \<open>processAudioChunk\<close> applies to a backend's answer:
  to the secondary's answer when no live session is registered, to the primary's
  answer, and to the secondary's answer when it is the fallback of the primary.
  \<open>transcribed && transcribed.trim().length > 0\<close> is the first line of each.
\<close>

definition acceptsDirect :: "string \<Rightarrow> bool" where
  "acceptsDirect t =
     (t \<noteq> [] \<and> trim t \<noteq> [] \<and> \<not> includes_str t ''[Chunk''
      \<and> \<not> includes_str t ''Session not found''
      \<and> \<not> includes_str t ''Transcription error''
      \<and> \<not> includes_str t ''No transcript'')"

definition acceptsPrimary :: "string \<Rightarrow> bool" where
  "acceptsPrimary t =
     (t \<noteq> [] \<and> trim t \<noteq> [] \<and> \<not> includes_str t ''[Chunk''
      \<and> \<not> includes_str t ''Session not found''
      \<and> \<not> includes_str t ''Transcription error''
      \<and> \<not> includes_str t ''WebSocket not connected''
      \<and> \<not> includes_str t ''Timeout'')"

definition acceptsFallback :: "string \<Rightarrow> bool" where
  "acceptsFallback t =
     (t \<noteq> [] \<and> trim t \<noteq> [] \<and> \<not> includes_str t ''[Chunk''
      \<and> \<not> includes_str t ''No transcript'')"

definition isPlaceholder :: "string \<Rightarrow> bool" where
  "isPlaceholder t =
     (includes_str t ''Transcription via Web Speech API''
      \<or> includes_str t ''Audio chunk''
      \<or> includes_str t ''No speech detected''
      \<or> includes_str t ''Transcription failed'')"

record procEnv =
  primary :: wsEnv
  secondary :: restEnv

text \<open>
  The secondary backend as a fallback (the three places where \<open>processAudioChunk\<close>
  calls the REST module after the primary was tried or threw): the answer is kept
  when \<open>acceptsFallback\<close> holds, otherwise the function returns.
\<close>

definition restFallback ::
  "procEnv \<Rightarrow> world \<Rightarrow> 'a AudioChunk_scheme \<Rightarrow> string option \<times> effect list" where
  "restFallback env w chunk =
     (case streamAudioChunkREST (secondary env) (restSessions w) (AudioChunk.sessionId chunk)
             (audioData chunk) (AudioChunk.chunkIndex chunk)
             (AudioChunk.startTime chunk) (AudioChunk.endTime chunk) of
        (Resolved restTranscribed, fx) \<Rightarrow>
          if acceptsFallback restTranscribed then (Some restTranscribed, fx) else (None, fx)
      | (Rejected e, fx) \<Rightarrow> (None, fx))"

text \<open>
  The first half of \<open>processAudioChunk\<close>: choosing the backend and obtaining
  \<open>finalTranscript\<close>. \<open>None\<close> stands for the early \<open>return\<close> that drops the chunk.
\<close>

definition transcribeChunk ::
  "procEnv \<Rightarrow> world \<Rightarrow> 'a AudioChunk_scheme \<Rightarrow> string option \<times> world \<times> effect list" where
  "transcribeChunk env w chunk =
     (let websocketSessionExists = hasActiveSession (wsSessions w) (AudioChunk.sessionId chunk);
          restSessionExists = hasActiveSessionREST (restSessions w) (AudioChunk.sessionId chunk);
          sessionExists = (websocketSessionExists \<or> restSessionExists)
      in
      if \<not> sessionExists then
        (case streamAudioChunkREST (secondary env) (restSessions w) (AudioChunk.sessionId chunk)
                (audioData chunk) (AudioChunk.chunkIndex chunk)
                (AudioChunk.startTime chunk) (AudioChunk.endTime chunk) of
           (Resolved transcribed, fx) \<Rightarrow>
             if acceptsDirect transcribed then (Some transcribed, w, fx) else (None, w, fx)
         | (Rejected e, fx) \<Rightarrow> (None, w, fx))
      else
        (case streamAudioChunk (primary env) (wsSessions w) (AudioChunk.sessionId chunk)
                (audioData chunk) (AudioChunk.chunkIndex chunk)
                (AudioChunk.startTime chunk) (AudioChunk.endTime chunk) of
           (Resolved transcribed, reg', fx) \<Rightarrow>
             if acceptsPrimary transcribed then (Some transcribed, w\<lparr>wsSessions := reg'\<rparr>, fx)
             else (case restFallback env (w\<lparr>wsSessions := reg'\<rparr>) chunk of
                     (r, fx') \<Rightarrow> (r, w\<lparr>wsSessions := reg'\<rparr>, fx @ fx'))
         | (Rejected e, reg', fx) \<Rightarrow>
             (case restFallback env (w\<lparr>wsSessions := reg'\<rparr>) chunk of
                (r, fx') \<Rightarrow> (r, w\<lparr>wsSessions := reg'\<rparr>, fx @ fx'))))"

text \<open>
  The second half of \<open>processAudioChunk\<close>: the placeholder test, the row of the chunk
  (replaced by the latest text when it differs), and the running transcript. \<open>Inl\<close> is
  the exception of a \<open>create\<close> that throws; nothing has been written then.
\<close>

definition storeChunk :: "world \<Rightarrow> 'a AudioChunk_scheme \<Rightarrow> string \<Rightarrow> thrown + world" where
  "storeChunk w chunk finalTranscript =
     (if \<not> isPlaceholder finalTranscript then
        (case findFirst (transcriptChunk w) (AudioChunk.sessionId chunk) (AudioChunk.chunkIndex chunk) of
           Some existingChunk \<Rightarrow>
             Inr (updateSessionTranscript
                    (w\<lparr>transcriptChunk :=
                         (if TranscriptChunk.transcript existingChunk \<noteq> finalTranscript
                          then updateTranscript (transcriptChunk w) (chunkId existingChunk) finalTranscript
                          else transcriptChunk w)\<rparr>)
                    (AudioChunk.sessionId chunk) (AudioChunk.startTime chunk)
                    (AudioChunk.endTime chunk) finalTranscript)
         | None \<Rightarrow>
             (case createChunk w (AudioChunk.sessionId chunk) (AudioChunk.chunkIndex chunk)
                     finalTranscript (AudioChunk.startTime chunk) (AudioChunk.endTime chunk) of
                Inl e \<Rightarrow> Inl e
              | Inr rows \<Rightarrow>
                  Inr (updateSessionTranscript (w\<lparr>transcriptChunk := rows\<rparr>)
                         (AudioChunk.sessionId chunk) (AudioChunk.startTime chunk)
                         (AudioChunk.endTime chunk) finalTranscript)))
      else Inr w)"

text \<open>
  \<open>processAudioChunk\<close> returns a promise of nothing. \<open>processAudioChunk\<close> below gives
  the state it leaves and its effects, \<open>processAudioChunkOutcome\<close> whether the promise
  is fulfilled or rejected: the function's \<open>catch\<close> throws again what the database
  call threw.
\<close>

definition processAudioChunk ::
  "procEnv \<Rightarrow> world \<Rightarrow> 'a AudioChunk_scheme \<Rightarrow> world \<times> effect list" where
  "processAudioChunk env w chunk =
     (case transcribeChunk env w chunk of
        (None, w', fx) \<Rightarrow> (w', fx)
      | (Some finalTranscript, w', fx) \<Rightarrow>
          (case storeChunk w' chunk finalTranscript of
             Inl e \<Rightarrow> (w', fx)
           | Inr w'' \<Rightarrow> (w'', fx)))"

definition processAudioChunkOutcome ::
  "procEnv \<Rightarrow> world \<Rightarrow> 'a AudioChunk_scheme \<Rightarrow> unit promise" where
  "processAudioChunkOutcome env w chunk =
     (case transcribeChunk env w chunk of
        (None, w', fx) \<Rightarrow> Resolved ()
      | (Some finalTranscript, w', fx) \<Rightarrow>
          (case storeChunk w' chunk finalTranscript of
             Inl e \<Rightarrow> Rejected e
           | Inr w'' \<Rightarrow> Resolved ()))"


section \<open>The Socket.io server\<close>

text \<open>
  \<open>startLiveSession\<close> of the WebSocket module: it throws when the API key is missing
  or the socket cannot be constructed; otherwise it registers the session at once,
  not yet connected, with a socket that is still connecting. The REST module's
  \<open>startLiveSession\<close> only needs the key.
\<close>

record startEnv =
  keySet :: bool
  socketThrows :: "thrown option"

definition startLiveSession :: "startEnv \<Rightarrow> wsRegistry \<Rightarrow> string \<Rightarrow> unit promise \<times> wsRegistry" where
  "startLiveSession env reg sid =
     (if \<not> keySet env then (Rejected (ErrorObj ''GEMINI_API_KEY is not set''), reg)
      else case socketThrows env of
             Some e \<Rightarrow> (Rejected e, reg)
           | None \<Rightarrow>
               (Resolved (),
                reg(sid \<mapsto> \<lparr>geminiWs = Some CONNECTING, transcriptBuffer = [],
                             lastChunkIndex = 0, isConnected = False\<rparr>)))"

definition startLiveSessionREST ::
  "startEnv \<Rightarrow> restRegistry \<Rightarrow> string \<Rightarrow> unit promise \<times> restRegistry" where
  "startLiveSessionREST env reg sid =
     (if \<not> keySet env then (Rejected (ErrorObj ''GEMINI_API_KEY is not set''), reg)
      else (Resolved (), reg(sid \<mapsto> \<lparr>restTranscriptBuffer = [], restChunkIndex = 0\<rparr>)))"






text \<open>The \<open>session:start\<close> handler.\<close>

definition sessionStartHandler ::
  "startEnv \<Rightarrow> world \<Rightarrow> string \<Rightarrow> string \<Rightarrow> string \<Rightarrow> world \<times> effect list" where
  "sessionStartHandler env w sid uid recordingMode =
     (if sid = [] \<or> trim sid = [] then (w, [Emit (SessionError ''Invalid session ID'')])
      else
        (let chunkDuration = (if recordingMode = ''TAB'' then 5 else 30);
             w1 = w\<lparr>sessionMetadata := (sessionMetadata w)(sid \<mapsto> (recordingMode, chunkDuration))\<rparr>
         in case startLiveSession env (wsSessions w1) sid of
              (Resolved u, reg) \<Rightarrow> (w1\<lparr>wsSessions := reg\<rparr>, [Emit (SessionStarted sid)])
            | (Rejected e, reg) \<Rightarrow>
                (case startLiveSessionREST env (restSessions w1) sid of
                   (Resolved u, rreg) \<Rightarrow> (w1\<lparr>restSessions := rreg\<rparr>, [Emit (SessionStarted sid)])
                 | (Rejected e', rreg) \<Rightarrow> (w1, [Emit (SessionStarted sid)]))))"

text \<open>
  The \<open>audio:chunk\<close> handler. \<open>metadata?.chunkDuration || 30\<close> is 30 when the session
  has no metadata or the stored duration is 0. The handler runs to completion here:
  the two acknowledgements, then the effects of \<open>processAudioChunk\<close>, then the
  \<open>transcript:updated\<close> event of the \<open>then\<close> callback when the promise is
  fulfilled, or the \<open>audio:error\<close> event of the \<open>catch\<close> callback when it is
  rejected (\<open>error.message?.includes\<close> is false of a value without a message).
\<close>

definition chunkDurationOf :: "world \<Rightarrow> string \<Rightarrow> nat" where
  "chunkDurationOf w sid =
     (case sessionMetadata w sid of
        None \<Rightarrow> 30
      | Some (recordingMode, chunkDuration) \<Rightarrow> if chunkDuration = 0 then 30 else chunkDuration)"

definition audioChunkOf :: "world \<Rightarrow> string \<Rightarrow> nat list \<Rightarrow> nat \<Rightarrow> AudioChunk" where
  "audioChunkOf w sid bytes idx =
     (let chunkDuration = chunkDurationOf w sid;
          startT = idx * chunkDuration;
          endT = startT + chunkDuration
      in \<lparr>AudioChunk.sessionId = sid, AudioChunk.chunkIndex = idx, audioData = bytes,
           AudioChunk.startTime = startT, AudioChunk.endTime = endT\<rparr>)"

definition audioChunkHandler ::
  "procEnv \<Rightarrow> world \<Rightarrow> string \<Rightarrow> nat list \<Rightarrow> nat \<Rightarrow> world \<times> effect list" where
  "audioChunkHandler env w sid bytes idx =
     (if sid = [] \<or> trim sid = [] then (w, [Emit (AudioError ''Invalid session ID'' (Some idx))])
      else
        (case processAudioChunk env w (audioChunkOf w sid bytes idx) of
           (w', fx) \<Rightarrow>
             (w', [Emit (AudioReceived idx), Emit (AudioReceived idx)] @ fx @
                (case processAudioChunkOutcome env w (audioChunkOf w sid bytes idx) of
                   Resolved u \<Rightarrow>
                     (case findFirst (transcriptChunk w') sid idx of
                        None \<Rightarrow> []
                      | Some row \<Rightarrow>
                          if \<not> includes_str (TranscriptChunk.transcript row) ''Transcription via Web Speech API''
                             \<and> \<not> includes_str (TranscriptChunk.transcript row) ''Audio chunk''
                          then [Emit (TranscriptUpdated sid (TranscriptChunk.transcript row) idx)]
                          else [])
                 | Rejected e \<Rightarrow>
                     if \<not> includes_str (messageOr [] e) ''no active WebSocket session''
                     then [Emit (AudioError (''Failed to process chunk '' @ showNat idx) (Some idx))]
                     else []))))"



text \<open>
  The regular expression of the \<open>transcript:chunk\<close> handler,
  \<open>\[Audio chunk \d+ recorded from \d+s to \d+s\. Transcription via Web Speech API\.\]\<close>.
  Each \<open>\d+\<close> is followed by a literal that starts with a non-digit, so taking the
  longest run of digits loses no match.
\<close>

definition isDigit :: "char \<Rightarrow> bool" where
  "isDigit c = (48 \<le> (of_char c :: nat) \<and> (of_char c :: nat) \<le> 57)"

definition matchLit :: "string \<Rightarrow> string \<Rightarrow> string option" where
  "matchLit lit s = (if prefix lit s then Some (drop (length lit) s) else None)"

definition matchDigits :: "string \<Rightarrow> string option" where
  "matchDigits s = (if takeWhile isDigit s = [] then None else Some (dropWhile isDigit s))"

definition matchAudioNoteAt :: "string \<Rightarrow> bool" where
  "matchAudioNoteAt s =
     (Option.bind (matchLit ''[Audio chunk '' s) (\<lambda>s1.
      Option.bind (matchDigits s1) (\<lambda>s2.
      Option.bind (matchLit '' recorded from '' s2) (\<lambda>s3.
      Option.bind (matchDigits s3) (\<lambda>s4.
      Option.bind (matchLit ''s to '' s4) (\<lambda>s5.
      Option.bind (matchDigits s5) (\<lambda>s6.
      matchLit ''s. Transcription via Web Speech API.]'' s6)))))) \<noteq> None)"

fun testAudioNote :: "string \<Rightarrow> bool" where
  "testAudioNote [] = matchAudioNoteAt []"
| "testAudioNote (c # cs) = (matchAudioNoteAt (c # cs) \<or> testAudioNote cs)"

definition isPlaceholderClient :: "string \<Rightarrow> bool" where
  "isPlaceholderClient t =
     (includes_str t ''Transcription via Web Speech API''
      \<or> includes_str t ''Audio chunk''
      \<or> includes_str t ''recorded from''
      \<or> includes_str t ''No speech detected''
      \<or> includes_str t ''Transcription failed''
      \<or> testAudioNote t)"

text \<open>
  The \<open>transcript:chunk\<close> handler (results of the browser's speech recognition). The
  tail of the handler, after the row is written, is \<open>finishTranscriptChunk\<close>. When
  \<open>create\<close> throws, the handler's \<open>catch\<close> emits \<open>transcript:error\<close> and nothing
  has been written.
\<close>

definition finishTranscriptChunk ::
  "world \<Rightarrow> string \<Rightarrow> string \<Rightarrow> nat \<Rightarrow> nat \<Rightarrow> nat \<Rightarrow> world \<times> effect list" where
  "finishTranscriptChunk w sid text idx startT endT =
     (updateSessionTranscript w sid startT endT text,
      if \<not> isPlaceholder text
      then [Emit (TranscriptUpdated sid text idx), Broadcast sid (TranscriptUpdated sid text idx)]
      else [])"

definition transcriptChunkHandler ::
  "world \<Rightarrow> string \<Rightarrow> string \<Rightarrow> nat \<Rightarrow> world \<times> effect list" where
  "transcriptChunkHandler w sid text idx =
     (if sid = [] \<or> trim sid = [] then (w, [])
      else if isPlaceholderClient text then (w, [])
      else
        (let chunkDuration = 30;
             startT = idx * chunkDuration;
             endT = startT + chunkDuration
         in case findFirst (transcriptChunk w) sid idx of
              Some existingChunk \<Rightarrow>
                (let existingText = trim (TranscriptChunk.transcript existingChunk);
                     newText = trim text
                 in if includes_str existingText newText then (w, [])
                    else
                      (let updatedTranscript =
                             (if existingText \<noteq> [] then existingText @ '' '' @ newText else newText)
                       in finishTranscriptChunk
                            (w\<lparr>transcriptChunk :=
                                 updateTranscript (transcriptChunk w) (chunkId existingChunk)
                                   (trim updatedTranscript)\<rparr>)
                            sid text idx startT endT))
            | None \<Rightarrow>
                (case createChunk w sid idx (trim text) startT endT of
                   Inl e \<Rightarrow> (w, [Emit (TranscriptError ''Failed to store transcript chunk'' idx)])
                 | Inr rows \<Rightarrow>
                     finishTranscriptChunk (w\<lparr>transcriptChunk := rows\<rparr>)
                       sid text idx startT endT)))"




section \<open>Stopping a session and the summary\<close>

definition isRealTranscript :: "string \<Rightarrow> bool" where
  "isRealTranscript t =
     (let text = trim t in
      text \<noteq> [] \<and> \<not> startsWith text ''[''
      \<and> \<not> includes_str text ''Audio transcription service not configured''
      \<and> \<not> includes_str text ''Transcription failed''
      \<and> \<not> includes_str text ''No speech detected''
      \<and> \<not> includes_str text ''browser-based transcription placeholder'')"

definition sessionChunks :: "TranscriptChunk list \<Rightarrow> string \<Rightarrow> TranscriptChunk list" where
  "sessionChunks rows sid =
     sort_key TranscriptChunk.chunkIndex (filter (\<lambda>row. TranscriptChunk.sessionId row = sid) rows)"

definition fullTranscriptOf :: "TranscriptChunk list \<Rightarrow> string" where
  "fullTranscriptOf chunks =
     joinWith [CHR 0x0A, CHR 0x0A]
       (map (\<lambda>row. rangeHeader (TranscriptChunk.startTime row) (TranscriptChunk.endTime row)
                     @ [CHR 0x0A] @ TranscriptChunk.transcript row) chunks)"

definition noTranscriptMessage :: string where
  "noTranscriptMessage =
     ''No transcript available. Audio transcription service needs to be configured to generate summaries.''"

text \<open>
  The external summary service answers with a text or throws; \<open>now\<close> is the clock.
  \<open>prisma.appSession.update\<close> throws when the session row does not exist.
\<close>

record summaryEnv =
  generateSummary :: "thrown + string"
  now :: nat

definition recordNotFound :: thrown where
  "recordNotFound = ErrorObj ''Record to update not found.''"

definition failSummary ::
  "world \<Rightarrow> string \<Rightarrow> thrown \<Rightarrow> effect list \<Rightarrow> string promise \<times> world \<times> effect list" where
  "failSummary w sid e fx =
     (case appSession w sid of
        None \<Rightarrow> (Rejected recordNotFound, w, fx)
      | Some session \<Rightarrow>
          (Rejected e, w\<lparr>appSession := (appSession w)(sid \<mapsto> session\<lparr>status := FAILED\<rparr>)\<rparr>, fx))"

definition completeSummary ::
  "summaryEnv \<Rightarrow> world \<Rightarrow> string \<Rightarrow> string \<Rightarrow> effect list \<Rightarrow> string promise \<times> world \<times> effect list" where
  "completeSummary env w sid text fx =
     (case appSession w sid of
        None \<Rightarrow> failSummary w sid recordNotFound fx
      | Some session \<Rightarrow>
          (Resolved text,
           w\<lparr>appSession := (appSession w)(sid \<mapsto>
                session\<lparr>summary := Some text, status := COMPLETED, completedAt := Some (now env)\<rparr>)\<rparr>,
           fx))"

definition generateSessionSummary ::
  "summaryEnv \<Rightarrow> world \<Rightarrow> string \<Rightarrow> string promise \<times> world \<times> effect list" where
  "generateSessionSummary env w sid =
     (let chunks = sessionChunks (transcriptChunk w) sid;
          fullTranscript = fullTranscriptOf chunks;
          hasRealTranscript = list_ex (\<lambda>row. isRealTranscript (TranscriptChunk.transcript row)) chunks
      in if hasRealTranscript \<and> trim fullTranscript \<noteq> [] then
           (case generateSummary env of
              Inl e \<Rightarrow> failSummary w sid e [SummaryCall fullTranscript]
            | Inr text \<Rightarrow> completeSummary env w sid text [SummaryCall fullTranscript])
         else completeSummary env w sid noTranscriptMessage [])"

text \<open>
  The route \<open>POST /api/sessions/[id]/stop\<close>. It answers after the status update and
  after starting \<open>generateSessionSummary\<close> without awaiting it: the third component
  lists the summary jobs started and still to run.
\<close>

datatype httpResponse = Success string | Failure nat string

definition POST ::
  "string option \<Rightarrow> nat \<Rightarrow> world \<Rightarrow> string \<Rightarrow> httpResponse \<times> world \<times> string list" where
  "POST user clock w sid =
     (case user of
        None \<Rightarrow> (Failure 401 ''Unauthorized'', w, [])
      | Some uid \<Rightarrow>
          if sid = [] then (Failure 400 ''Session ID is required'', w, [])
          else
            (case appSession w sid of
               None \<Rightarrow> (Failure 404 ''Session not found'', w, [])
             | Some existingSession \<Rightarrow>
                 if userId existingSession \<noteq> uid then (Failure 403 ''Forbidden'', w, [])
                 else
                   (Success ''Session stopped. Summary generation started.'',
                    w\<lparr>appSession := (appSession w)(sid \<mapsto>
                         existingSession\<lparr>status := PROCESSING, stoppedAt := Some clock\<rparr>)\<rparr>,
                    [sid])))"

section \<open>The server as a whole\<close>




section \<open>The recorder in the browser\<close>

text \<open>
  The references of the \<open>useRecording\<close> hook that the recorder's callbacks read and
  write, and the events they send to the server. A blob is a list of bytes.
\<close>

record recorder =
  audioChunksRef :: "nat list list"
  chunkIndexRef :: nat
  isPausedRef :: bool
  sessionIdRef :: string

datatype clientEvent = AudioChunkEvent string "nat list" nat

definition ondataavailable :: "recorder \<Rightarrow> nat list \<Rightarrow> recorder \<times> clientEvent list" where
  "ondataavailable r blob =
     (if length blob > 0 then
        (let r1 = r\<lparr>audioChunksRef := audioChunksRef r @ [blob]\<rparr> in
         if \<not> isPausedRef r1 \<and> length (audioChunksRef r1) > 0 then
           (r1\<lparr>chunkIndexRef := chunkIndexRef r1 + 1, audioChunksRef := []\<rparr>,
            [AudioChunkEvent (sessionIdRef r1) (concat (audioChunksRef r1)) (chunkIndexRef r1)])
         else (r1, []))
      else (r, []))"

definition onpause :: "recorder \<Rightarrow> recorder" where
  "onpause r = r\<lparr>isPausedRef := True\<rparr>"

definition onresume :: "recorder \<Rightarrow> recorder" where
  "onresume r = r\<lparr>isPausedRef := False\<rparr>"

text \<open>The part of \<open>stopRecording\<close> that sends the remaining audio.\<close>

definition stopRecording :: "recorder \<Rightarrow> recorder \<times> clientEvent list" where
  "stopRecording r =
     (if length (audioChunksRef r) > 0 then
        (r\<lparr>chunkIndexRef := chunkIndexRef r + 1, isPausedRef := False, audioChunksRef := []\<rparr>,
         [AudioChunkEvent (sessionIdRef r) (concat (audioChunksRef r)) (chunkIndexRef r)])
      else (r\<lparr>isPausedRef := False, audioChunksRef := []\<rparr>, []))"

datatype recorderInput = DataAvailable "nat list" | OnPause | OnResume | StopRecording

fun recorderStep :: "recorder \<Rightarrow> recorderInput \<Rightarrow> recorder \<times> clientEvent list" where
  "recorderStep r (DataAvailable blob) = ondataavailable r blob"
| "recorderStep r OnPause = (onpause r, [])"
| "recorderStep r OnResume = (onresume r, [])"
| "recorderStep r StopRecording = stopRecording r"

fun runRecorder :: "recorder \<Rightarrow> recorderInput list \<Rightarrow> recorder \<times> clientEvent list" where
  "runRecorder r [] = (r, [])"
| "runRecorder r (x # xs) =
     (case recorderStep r x of
        (r1, out1) \<Rightarrow> (case runRecorder r1 xs of (r2, out2) \<Rightarrow> (r2, out1 @ out2)))"

fun eventIndex :: "clientEvent \<Rightarrow> nat" where
  "eventIndex (AudioChunkEvent sid bytes idx) = idx"

text \<open>
  The server receiving the recorder's events, one \<open>audio:chunk\<close> handler run per event;
  \<open>envOf\<close> gives what the backends do for each chunk index.
\<close>

fun deliver :: "(nat \<Rightarrow> procEnv) \<Rightarrow> world \<Rightarrow> clientEvent list \<Rightarrow> world" where
  "deliver envOf w [] = w"
| "deliver envOf w (AudioChunkEvent sid bytes idx # evs) =
     deliver envOf (fst (audioChunkHandler (envOf idx) w sid bytes idx)) evs"


section \<open>Facts about strings\<close>

lemma includes_str_sublist: "includes_str hay needle = sublist needle hay"
  by (induction hay) (auto simp: sublist_Cons_right)

lemma includes_str_iff: "includes_str hay needle \<longleftrightarrow> (\<exists>ps ss. hay = ps @ needle @ ss)"
  by (simp add: includes_str_sublist sublist_def)

lemma includes_str_refl: "includes_str s s"
  by (simp add: includes_str_sublist)

lemma includes_str_appendI: "includes_str (a @ b @ c) b"
  by (auto simp: includes_str_iff)

lemma trim_Nil: "trim [] = []"
  by (simp add: trim_def)

lemma last_dropWhile: "dropWhile P xs \<noteq> [] \<Longrightarrow> last (dropWhile P xs) = last xs"
  by (induction xs) auto

lemma trimmed_trim: "trimmed (trim s)"
proof -
  define a where "a = dropWhile isWhitespace s"
  define b where "b = dropWhile isWhitespace (rev a)"
  have t: "trim s = rev b"
    by (simp only: trim_def a_def b_def)
  show ?thesis
  proof (cases "b = []")
    case True
    then show ?thesis by (simp add: t trimmed_def)
  next
    case False
    then have nb: "\<not> isWhitespace (hd b)"
      unfolding b_def by (rule hd_dropWhile)
    have ra: "rev a \<noteq> []"
      using False unfolding b_def by (cases "rev a") auto
    then have ne: "a \<noteq> []" by simp
    then have na: "\<not> isWhitespace (hd a)"
      unfolding a_def by (rule hd_dropWhile)
    have "last b = last (rev a)"
      using False unfolding b_def by (rule last_dropWhile)
    also have "\<dots> = hd a" using ne by (simp add: last_rev)
    finally have lb: "last b = hd a" .
    have "hd (rev b) = last b" using False by (simp add: hd_rev)
    with lb na have 1: "\<not> isWhitespace (hd (rev b))" by simp
    have "last (rev b) = hd b" using False by (simp add: last_rev)
    with nb have 2: "\<not> isWhitespace (last (rev b))" by simp
    from 1 2 show ?thesis by (simp add: t trimmed_def)
  qed
qed

lemma trim_trimmed: "trimmed s \<Longrightarrow> trim s = s"
proof (cases "s = []")
  case True
  then show ?thesis by (simp add: trim_def)
next
  case False
  assume "trimmed s"
  with False have h: "\<not> isWhitespace (hd s)" and l: "\<not> isWhitespace (last s)"
    by (auto simp: trimmed_def)
  from False h have "dropWhile isWhitespace s = s"
    by (cases s) auto
  moreover from False l have "dropWhile isWhitespace (rev s) = rev s"
    by (cases "rev s") (auto simp: last_rev hd_rev)
  ultimately show ?thesis by (simp add: trim_def)
qed

lemma trim_idem: "trim (trim s) = trim s"
  by (simp add: trim_trimmed trimmed_trim)

lemma trimmed_join:
  assumes "trimmed a" "trimmed b" "a \<noteq> []" "b \<noteq> []"
  shows "trimmed (a @ '' '' @ b)"
  using assms by (auto simp: trimmed_def)

lemma trim_sublist: "sublist (trim s) s"
proof -
  have "suffix (dropWhile isWhitespace s) s"
    by (rule suffix_dropWhile)
  moreover have "suffix (dropWhile isWhitespace (rev (dropWhile isWhitespace s))) (rev (dropWhile isWhitespace s))"
    by (rule suffix_dropWhile)
  then have "prefix (trim s) (dropWhile isWhitespace s)"
    by (simp add: trim_def suffix_to_prefix)
  ultimately show ?thesis
    by (meson prefix_imp_sublist suffix_imp_sublist sublist_order.order_trans)
qed

lemma trim_decomp: "\<exists>l r. s = l @ trim s @ r \<and> (\<forall>c\<in>set l. isWhitespace c) \<and> (\<forall>c\<in>set r. isWhitespace c)"
proof -
  let ?l = "takeWhile isWhitespace s"
  let ?a = "dropWhile isWhitespace s"
  let ?r = "rev (takeWhile isWhitespace (rev ?a))"
  have 1: "s = ?l @ ?a" by simp
  have "?a = rev (rev ?a)" by simp
  also have "\<dots> = rev (takeWhile isWhitespace (rev ?a) @ dropWhile isWhitespace (rev ?a))"
    by (simp only: takeWhile_dropWhile_id)
  also have "\<dots> = rev (dropWhile isWhitespace (rev ?a)) @ ?r"
    by (simp only: rev_append)
  finally have 2: "?a = trim s @ ?r" by (simp only: trim_def)
  have "s = ?l @ trim s @ ?r" using 1 2 by metis
  moreover have "\<forall>c\<in>set ?l. isWhitespace c" by (meson set_takeWhileD)
  moreover have "\<forall>c\<in>set ?r. isWhitespace c" using set_takeWhileD by fastforce
  ultimately show ?thesis by blast
qed


section \<open>Results about the primary backend\<close>

lemma showNat_nonempty: "showNat n \<noteq> []"
  by (subst showNat.simps) simp

text \<open>
  Claim C10. The primary backend's \<open>streamAudioChunk\<close> always resolves with a string
  and never rejects; in every failure mode (unknown session, socket missing or not
  open, send error, caught exception, timeout) the string is a bracketed placeholder
  that begins with \<open>[Chunk \<close> followed by the chunk index and ends with \<open>]\<close>.
\<close>

theorem streamAudioChunk_total:
  "\<exists>s. fst (streamAudioChunk env reg sid bytes idx startT endT) = Resolved s \<and>
       (primaryFails env reg sid \<longrightarrow>
          prefix (''[Chunk '' @ showNat idx) s \<and> last s = CHR '']'')"
  by (auto simp: streamAudioChunk_def primaryFails_def chunkTag_def Let_def
           split: option.splits)

theorem streamAudioChunk_total_witness:
  "primaryFails \<lparr>buildThrows = None, sendThrows = None, awaited = None\<rparr>
      (Map.empty(''s1'' \<mapsto> \<lparr>geminiWs = Some OPEN, transcriptBuffer = '''',
                              lastChunkIndex = 0, isConnected = True\<rparr>)) ''s1'' \<and>
   (\<exists>s. fst (streamAudioChunk \<lparr>buildThrows = None, sendThrows = None, awaited = None\<rparr>
      (Map.empty(''s1'' \<mapsto> \<lparr>geminiWs = Some OPEN, transcriptBuffer = '''',
                              lastChunkIndex = 0, isConnected = True\<rparr>)) ''s1'' [1, 2] 7 210 240)
        = Resolved s \<and> prefix (''[Chunk '' @ showNat 7) s \<and> last s = CHR '']'')"
  using streamAudioChunk_total
    [of "\<lparr>buildThrows = None, sendThrows = None, awaited = None\<rparr>"
        "Map.empty(''s1'' \<mapsto> \<lparr>geminiWs = Some OPEN, transcriptBuffer = '''',
                              lastChunkIndex = 0, isConnected = True\<rparr>)" "''s1''" "[1, 2]" 7 210 240]
  by (simp add: primaryFails_def)


section \<open>Results about pausing\<close>

text \<open>
  What does hold while the recorder is paused: data handed to \<open>ondataavailable\<close> sends
  no \<open>audio:chunk\<close> event and leaves the chunk counter where it was, for any number of
  data events. But every blob that is not empty is kept in \<open>audioChunksRef\<close>.
\<close>

lemma ondataavailable_paused:
  "isPausedRef r \<Longrightarrow>
     snd (ondataavailable r blob) = [] \<and>
     chunkIndexRef (fst (ondataavailable r blob)) = chunkIndexRef r \<and>
     isPausedRef (fst (ondataavailable r blob)) \<and>
     audioChunksRef (fst (ondataavailable r blob))
       = audioChunksRef r @ filter (\<lambda>b. b \<noteq> []) [blob]"
  by (simp add: ondataavailable_def Let_def)

lemma runRecorder_paused:
  "isPausedRef r \<Longrightarrow>
     snd (runRecorder r (map DataAvailable blobs)) = [] \<and>
     chunkIndexRef (fst (runRecorder r (map DataAvailable blobs))) = chunkIndexRef r \<and>
     isPausedRef (fst (runRecorder r (map DataAvailable blobs))) \<and>
     audioChunksRef (fst (runRecorder r (map DataAvailable blobs)))
       = audioChunksRef r @ filter (\<lambda>b. b \<noteq> []) blobs"
proof (induction blobs arbitrary: r)
  case Nil
  then show ?case by simp
next
  case (Cons b bs)
  obtain r1 out1 where s: "ondataavailable r b = (r1, out1)"
    by (cases "ondataavailable r b")
  with ondataavailable_paused [OF Cons.prems, of b]
  have p: "out1 = []" "chunkIndexRef r1 = chunkIndexRef r" "isPausedRef r1"
    "audioChunksRef r1 = audioChunksRef r @ filter (\<lambda>b. b \<noteq> []) [b]"
    by simp_all
  from Cons.IH [OF p(3)] p s show ?case
    by (simp split: prod.splits)
qed

text \<open>
  Claim C8 at a concrete input. The recorder has sent the chunks 0 and 1 and is paused;
  three bytes are handed to \<open>ondataavailable\<close> during the pause. Nothing is sent at that
  moment, but the bytes are not discarded: \<open>stopRecording\<close> sends them as chunk 2 and
  advances the counter to 3, and so does the first data event after a resume, together
  with its own bytes. The server keeps no pause state; it stores a row for chunk 2.
\<close>

theorem paused_bytes_sent_later:
  "snd (runRecorder (onpause 
        \<lparr>audioChunksRef = [], chunkIndexRef = 2, isPausedRef = False, sessionIdRef = ''s1''\<rparr>) [DataAvailable [1, 2, 3]]) = [] \<and>
   snd (runRecorder (onpause 
        \<lparr>audioChunksRef = [], chunkIndexRef = 2, isPausedRef = False, sessionIdRef = ''s1''\<rparr>) [DataAvailable [1, 2, 3], StopRecording])
     = [AudioChunkEvent ''s1'' [1, 2, 3] 2] \<and>
   chunkIndexRef (fst (runRecorder (onpause 
        \<lparr>audioChunksRef = [], chunkIndexRef = 2, isPausedRef = False, sessionIdRef = ''s1''\<rparr>) [DataAvailable [1, 2, 3], StopRecording])) = 3 \<and>
   snd (runRecorder (onpause 
        \<lparr>audioChunksRef = [], chunkIndexRef = 2, isPausedRef = False, sessionIdRef = ''s1''\<rparr>) [DataAvailable [1, 2, 3], OnResume, DataAvailable [4]])
     = [AudioChunkEvent ''s1'' [1, 2, 3, 4] 2] \<and>
   chunkIndexRef (fst (runRecorder (onpause 
        \<lparr>audioChunksRef = [], chunkIndexRef = 2, isPausedRef = False, sessionIdRef = ''s1''\<rparr>)
      [DataAvailable [1, 2, 3], OnResume, DataAvailable [4]])) = 3 \<and>
   map (\<lambda>row. (TranscriptChunk.chunkIndex row, TranscriptChunk.transcript row))
     (transcriptChunk (deliver
        (\<lambda>i. \<lparr>primary = \<lparr>buildThrows = None, sendThrows = None, awaited = Some ''hello''\<rparr>,
              secondary = \<lparr>apiKeySet = True, response = RestNoParts\<rparr>\<rparr>)
        \<lparr>wsSessions = Map.empty(''s1'' \<mapsto> \<lparr>geminiWs = Some OPEN, transcriptBuffer = [],
                                            lastChunkIndex = 1, isConnected = True\<rparr>),
          restSessions = Map.empty, sessionMetadata = Map.empty(''s1'' \<mapsto> (''MIC'', 30)),
          transcriptChunk = [],
          appSession = Map.empty(''s1'' \<mapsto> \<lparr>userId = ''u1'', status = RECORDING,
            transcript = None, summary = None, stoppedAt = None, completedAt = None\<rparr>)\<rparr>
        (snd (runRecorder (onpause 
        \<lparr>audioChunksRef = [], chunkIndexRef = 2, isPausedRef = False, sessionIdRef = ''s1''\<rparr>) [DataAvailable [1, 2, 3], StopRecording]))))
     = [(2, ''hello'')]"
  by code_simp

section \<open>Facts about routing between the backends\<close>



lemma acceptsDirect_fallback: "acceptsDirect t \<Longrightarrow> acceptsFallback t"
  by (simp add: acceptsDirect_def acceptsFallback_def)








section \<open>Facts about the chunk table\<close>

lemma matches_transcript_update [simp]:
  "matches sid idx (row\<lparr>TranscriptChunk.transcript := t\<rparr>) = matches sid idx row"
  by (simp add: matches_def)

lemma find_updateTranscript:
  "find (matches sid idx) rows = Some row \<Longrightarrow>
     find (matches sid idx) (updateTranscript rows (chunkId row) t)
       = Some (row\<lparr>TranscriptChunk.transcript := t\<rparr>)"
  by (induction rows) (auto simp: updateTranscript_def split: if_splits)

lemma findFirst_update:
  "findFirst rows sid idx = Some row \<Longrightarrow>
     findFirst (updateTranscript rows (chunkId row) t) sid idx
       = Some (row\<lparr>TranscriptChunk.transcript := t\<rparr>)"
  by (simp add: findFirst_def find_updateTranscript)

lemma find_append_new: "find P xs = None \<Longrightarrow> P x \<Longrightarrow> find P (xs @ [x]) = Some x"
  by (induction xs) (auto split: if_splits)

lemma findFirst_create:
  "findFirst rows sid idx = None \<Longrightarrow>
     findFirst (appendChunk rows sid idx t startT endT) sid idx
       = Some \<lparr>chunkId = freshId rows, sessionId = sid, chunkIndex = idx,
               transcript = t, startTime = startT, endTime = endT\<rparr>"
  by (simp add: findFirst_def appendChunk_def find_append_new matches_def)

lemma fitsInteger_mono: "fitsInteger b \<Longrightarrow> a \<le> b \<Longrightarrow> fitsInteger a"
  by (simp add: fitsInteger_def)

lemma createChunk_Inr:
  assumes "appSession w sid \<noteq> None"
      and "fitsInteger idx" "fitsInteger startT" "fitsInteger endT"
  shows "createChunk w sid idx t startT endT
           = Inr (appendChunk (transcriptChunk w) sid idx t startT endT)"
  using assms by (auto simp: createChunk_def)

lemma createChunk_Inl:
  assumes "appSession w sid = None \<or> \<not> fitsInteger idx \<or> \<not> fitsInteger startT \<or> \<not> fitsInteger endT"
  shows "\<exists>e. createChunk w sid idx t startT endT = Inl e"
  using assms by (auto simp: createChunk_def)

lemma count_update:
  "length (filter (matches sid idx) (updateTranscript rows i t))
     = length (filter (matches sid idx) rows)"
  by (induction rows) (auto simp: updateTranscript_def)

lemma count_create:
  "length (filter (matches sid idx) (appendChunk rows sid idx t startT endT))
     = Suc (length (filter (matches sid idx) rows))"
  by (simp add: appendChunk_def matches_def)

lemma findFirst_None_count:
  "findFirst rows sid idx = None \<longleftrightarrow> length (filter (matches sid idx) rows) = 0"
  by (induction rows) (auto simp: findFirst_def)

lemma updateSessionTranscript_rows [simp]:
  "transcriptChunk (updateSessionTranscript w sid startT endT t) = transcriptChunk w"
  by (simp add: updateSessionTranscript_def split: option.splits)

lemma updateSessionTranscript_registries [simp]:
  "wsSessions (updateSessionTranscript w sid startT endT t) = wsSessions w"
  "restSessions (updateSessionTranscript w sid startT endT t) = restSessions w"
  "sessionMetadata (updateSessionTranscript w sid startT endT t) = sessionMetadata w"
  by (simp_all add: updateSessionTranscript_def split: option.splits)

text \<open>
  The row can be written: it exists already, or the session has a row and the chunk's
  numbers fit the columns.
\<close>

lemma storeChunk_row:
  assumes "\<not> isPlaceholder t"
      and "findFirst (transcriptChunk w) (AudioChunk.sessionId chunk) (AudioChunk.chunkIndex chunk) \<noteq> None
           \<or> (appSession w (AudioChunk.sessionId chunk) \<noteq> None
              \<and> fitsInteger (AudioChunk.chunkIndex chunk)
              \<and> fitsInteger (AudioChunk.startTime chunk)
              \<and> fitsInteger (AudioChunk.endTime chunk))"
  shows "\<exists>w' row. storeChunk w chunk t = Inr w'
               \<and> findFirst (transcriptChunk w')
                    (AudioChunk.sessionId chunk) (AudioChunk.chunkIndex chunk) = Some row
               \<and> TranscriptChunk.transcript row = t"
proof (cases "findFirst (transcriptChunk w) (AudioChunk.sessionId chunk) (AudioChunk.chunkIndex chunk)")
  case None
  with assms(2) have "createChunk w (AudioChunk.sessionId chunk) (AudioChunk.chunkIndex chunk) t
           (AudioChunk.startTime chunk) (AudioChunk.endTime chunk)
         = Inr (appendChunk (transcriptChunk w) (AudioChunk.sessionId chunk)
                  (AudioChunk.chunkIndex chunk) t (AudioChunk.startTime chunk) (AudioChunk.endTime chunk))"
    by (simp add: createChunk_Inr)
  with assms(1) None show ?thesis
    by (simp add: storeChunk_def findFirst_create)
next
  case (Some row)
  with assms(1) show ?thesis
    by (simp add: storeChunk_def findFirst_update)
qed


lemma processAudioChunk_Some:
  assumes "fst (transcribeChunk env w chunk) = Some text"
      and "storeChunk (fst (snd (transcribeChunk env w chunk))) chunk text = Inr w'"
  shows "fst (processAudioChunk env w chunk) = w'"
    and "processAudioChunkOutcome env w chunk = Resolved ()"
  using assms
  by (cases "transcribeChunk env w chunk"; auto simp: processAudioChunk_def processAudioChunkOutcome_def)+

lemma processAudioChunk_throws:
  assumes "fst (transcribeChunk env w chunk) = Some text"
      and "storeChunk (fst (snd (transcribeChunk env w chunk))) chunk text = Inl e"
  shows "fst (processAudioChunk env w chunk) = fst (snd (transcribeChunk env w chunk))"
    and "processAudioChunkOutcome env w chunk = Rejected e"
  using assms
  by (cases "transcribeChunk env w chunk"; auto simp: processAudioChunk_def processAudioChunkOutcome_def)+

lemma processAudioChunk_None:
  assumes "fst (transcribeChunk env w chunk) = None"
  shows "fst (processAudioChunk env w chunk) = fst (snd (transcribeChunk env w chunk))"
    and "processAudioChunkOutcome env w chunk = Resolved ()"
  using assms
  by (cases "transcribeChunk env w chunk"; auto simp: processAudioChunk_def processAudioChunkOutcome_def)+


lemma transcribeChunk_tables:
  "transcriptChunk (fst (snd (transcribeChunk env w chunk))) = transcriptChunk w \<and>
   appSession (fst (snd (transcribeChunk env w chunk))) = appSession w \<and>
   restSessions (fst (snd (transcribeChunk env w chunk))) = restSessions w \<and>
   sessionMetadata (fst (snd (transcribeChunk env w chunk))) = sessionMetadata w"
  by (simp add: transcribeChunk_def Let_def split: prod.splits promise.splits)


section \<open>The window before the primary socket opens\<close>





section \<open>Runs of the server\<close>














section \<open>Fallback to the secondary backend\<close>



section \<open>Placeholders\<close>

text \<open>
  Claim C6 at a concrete input: no primary session, a REST session registered, and a
  remote answer \<open>No speech detected\<close>. \<open>processAudioChunk\<close> stores nothing, but the
  secondary module has already emitted the placeholder text to the client in a
  \<open>transcript:updated\<close> event.
\<close>

theorem placeholder_emitted_by_secondary:
  "isPlaceholder ''No speech detected'' \<and>
   snd (processAudioChunk
          \<lparr>primary = \<lparr>buildThrows = None, sendThrows = None, awaited = None\<rparr>,
            secondary = \<lparr>apiKeySet = True, response = RestParts [''No speech detected'']\<rparr>\<rparr>
          \<lparr>wsSessions = Map.empty,
            restSessions = Map.empty(''s1'' \<mapsto> \<lparr>restTranscriptBuffer = [], restChunkIndex = 0\<rparr>),
            sessionMetadata = Map.empty, transcriptChunk = [],
            appSession = Map.empty(''s1'' \<mapsto> \<lparr>userId = ''u1'', status = RECORDING,
                 transcript = None, summary = None, stoppedAt = None, completedAt = None\<rparr>)\<rparr>
          \<lparr>AudioChunk.sessionId = ''s1'', AudioChunk.chunkIndex = 0, audioData = [1],
            AudioChunk.startTime = 0, AudioChunk.endTime = 30\<rparr>)
     = [SecondaryCall ''s1'' 0, SecondaryFetch ''s1'' 0,
        Emit (TranscriptUpdated ''s1'' ''No speech detected'' 0)] \<and>
   transcriptChunk (fst (processAudioChunk
          \<lparr>primary = \<lparr>buildThrows = None, sendThrows = None, awaited = None\<rparr>,
            secondary = \<lparr>apiKeySet = True, response = RestParts [''No speech detected'']\<rparr>\<rparr>
          \<lparr>wsSessions = Map.empty,
            restSessions = Map.empty(''s1'' \<mapsto> \<lparr>restTranscriptBuffer = [], restChunkIndex = 0\<rparr>),
            sessionMetadata = Map.empty, transcriptChunk = [],
            appSession = Map.empty(''s1'' \<mapsto> \<lparr>userId = ''u1'', status = RECORDING,
                 transcript = None, summary = None, stoppedAt = None, completedAt = None\<rparr>)\<rparr>
          \<lparr>AudioChunk.sessionId = ''s1'', AudioChunk.chunkIndex = 0, audioData = [1],
            AudioChunk.startTime = 0, AudioChunk.endTime = 30\<rparr>)) = [] \<and>
   appSession (fst (processAudioChunk
          \<lparr>primary = \<lparr>buildThrows = None, sendThrows = None, awaited = None\<rparr>,
            secondary = \<lparr>apiKeySet = True, response = RestParts [''No speech detected'']\<rparr>\<rparr>
          \<lparr>wsSessions = Map.empty,
            restSessions = Map.empty(''s1'' \<mapsto> \<lparr>restTranscriptBuffer = [], restChunkIndex = 0\<rparr>),
            sessionMetadata = Map.empty, transcriptChunk = [],
            appSession = Map.empty(''s1'' \<mapsto> \<lparr>userId = ''u1'', status = RECORDING,
                 transcript = None, summary = None, stoppedAt = None, completedAt = None\<rparr>)\<rparr>
          \<lparr>AudioChunk.sessionId = ''s1'', AudioChunk.chunkIndex = 0, audioData = [1],
            AudioChunk.startTime = 0, AudioChunk.endTime = 30\<rparr>)) ''s1''
     = Some \<lparr>userId = ''u1'', status = RECORDING, transcript = None, summary = None,
              stoppedAt = None, completedAt = None\<rparr>"
  by code_simp

text \<open>
  The primary module does the same on its path: the \<open>message\<close> handler of its socket
  emits every transcript that is not blank, before \<open>processAudioChunk\<close> has tested it.
\<close>

lemma placeholder_emitted_by_primary:
  "snd (processAudioChunk
          \<lparr>primary = \<lparr>buildThrows = None, sendThrows = None, awaited = Some ''No speech detected''\<rparr>,
            secondary = \<lparr>apiKeySet = True, response = RestNoParts\<rparr>\<rparr>
          \<lparr>wsSessions = Map.empty(''s1'' \<mapsto> \<lparr>geminiWs = Some OPEN, transcriptBuffer = [],
                                                lastChunkIndex = 0, isConnected = True\<rparr>),
            restSessions = Map.empty, sessionMetadata = Map.empty, transcriptChunk = [],
            appSession = Map.empty(''s1'' \<mapsto> \<lparr>userId = ''u1'', status = RECORDING,
                 transcript = None, summary = None, stoppedAt = None, completedAt = None\<rparr>)\<rparr>
          \<lparr>AudioChunk.sessionId = ''s1'', AudioChunk.chunkIndex = 0, audioData = [1],
            AudioChunk.startTime = 0, AudioChunk.endTime = 30\<rparr>)
     = [PrimarySend ''s1'' 0, Emit (TranscriptUpdated ''s1'' ''No speech detected'' 0)] \<and>
   transcriptChunk (fst (processAudioChunk
          \<lparr>primary = \<lparr>buildThrows = None, sendThrows = None, awaited = Some ''No speech detected''\<rparr>,
            secondary = \<lparr>apiKeySet = True, response = RestNoParts\<rparr>\<rparr>
          \<lparr>wsSessions = Map.empty(''s1'' \<mapsto> \<lparr>geminiWs = Some OPEN, transcriptBuffer = [],
                                                lastChunkIndex = 0, isConnected = True\<rparr>),
            restSessions = Map.empty, sessionMetadata = Map.empty, transcriptChunk = [],
            appSession = Map.empty(''s1'' \<mapsto> \<lparr>userId = ''u1'', status = RECORDING,
                 transcript = None, summary = None, stoppedAt = None, completedAt = None\<rparr>)\<rparr>
          \<lparr>AudioChunk.sessionId = ''s1'', AudioChunk.chunkIndex = 0, audioData = [1],
            AudioChunk.startTime = 0, AudioChunk.endTime = 30\<rparr>)) = []"
  by code_simp

section \<open>Results about stopping and the summary\<close>

lemma POST_owner:
  assumes "sid \<noteq> []" "appSession w sid = Some s" "userId s = uid"
  shows "POST (Some uid) clock w sid =
           (Success ''Session stopped. Summary generation started.'',
            w\<lparr>appSession := (appSession w)(sid \<mapsto> s\<lparr>status := PROCESSING, stoppedAt := Some clock\<rparr>)\<rparr>,
            [sid])"
  using assms by (simp add: POST_def)

lemma sessionChunks_set:
  "set (sessionChunks rows sid) = {row \<in> set rows. TranscriptChunk.sessionId row = sid}"
  by (auto simp: sessionChunks_def)

lemma generateSessionSummary_Resolved:
  assumes "appSession w sid = Some s"
      and "generateSessionSummary env w sid = (Resolved text, w', fx)"
  shows "appSession w' sid
           = Some (s\<lparr>summary := Some text, status := COMPLETED, completedAt := Some (now env)\<rparr>)"
    and "transcriptChunk w' = transcriptChunk w"
  using assms
  by (auto simp: generateSessionSummary_def completeSummary_def failSummary_def Let_def
           split: if_splits sum.splits)

lemma generateSessionSummary_Rejected:
  assumes "appSession w sid = Some s"
      and "generateSessionSummary env w sid = (Rejected e, w', fx)"
  shows "appSession w' sid = Some (s\<lparr>status := FAILED\<rparr>)"
    and "generateSummary env = Inl e"
  using assms
  by (auto simp: generateSessionSummary_def completeSummary_def failSummary_def Let_def
           split: if_splits sum.splits)

lemma generateSessionSummary_call:
  assumes "SummaryCall t \<in> set (snd (snd (generateSessionSummary env w sid)))"
  shows "\<exists>row\<in>set (transcriptChunk w). TranscriptChunk.sessionId row = sid
            \<and> isRealTranscript (TranscriptChunk.transcript row)"
proof -
  from assms have "list_ex (\<lambda>row. isRealTranscript (TranscriptChunk.transcript row))
                     (sessionChunks (transcriptChunk w) sid)"
    by (auto simp: generateSessionSummary_def completeSummary_def failSummary_def Let_def
             split: if_splits sum.splits option.splits)
  then show ?thesis
    by (auto simp: list_ex_iff sessionChunks_set)
qed

text \<open>
  Claim C7. For the owner of an existing session, the stop route answers with success
  after setting the status to \<open>PROCESSING\<close>, with the summary job started but not yet
  run (the tables are otherwise as before). When the job then resolves, the status is
  \<open>COMPLETED\<close> and the summary is the resolved text; when it rejects, the status is
  \<open>FAILED\<close> and the summary is what it was before the stop. The external summary
  service is called only if some chunk of the session holds a real transcript.
\<close>

theorem stop_then_summary:
  assumes "sid \<noteq> []" and "appSession w sid = Some s" and "userId s = uid"
  shows "\<exists>w1. POST (Some uid) clock w sid
                = (Success ''Session stopped. Summary generation started.'', w1, [sid]) \<and>
              appSession w1 sid = Some (s\<lparr>status := PROCESSING, stoppedAt := Some clock\<rparr>) \<and>
              transcriptChunk w1 = transcriptChunk w \<and>
              (\<forall>text w2 fx. generateSessionSummary env w1 sid = (Resolved text, w2, fx) \<longrightarrow>
                  appSession w2 sid
                    = Some (s\<lparr>status := COMPLETED, stoppedAt := Some clock, summary := Some text,
                              completedAt := Some (now env)\<rparr>)) \<and>
              (\<forall>e w2 fx. generateSessionSummary env w1 sid = (Rejected e, w2, fx) \<longrightarrow>
                  appSession w2 sid = Some (s\<lparr>status := FAILED, stoppedAt := Some clock\<rparr>) \<and>
                  AppSession.summary (the (appSession w2 sid)) = AppSession.summary s) \<and>
              (\<forall>t. SummaryCall t \<in> set (snd (snd (generateSessionSummary env w1 sid))) \<longrightarrow>
                  (\<exists>row\<in>set (transcriptChunk w). TranscriptChunk.sessionId row = sid
                      \<and> isRealTranscript (TranscriptChunk.transcript row)))"
proof -
  let ?w1 = "w\<lparr>appSession := (appSession w)(sid \<mapsto> s\<lparr>status := PROCESSING, stoppedAt := Some clock\<rparr>)\<rparr>"
  have p: "POST (Some uid) clock w sid
             = (Success ''Session stopped. Summary generation started.'', ?w1, [sid])"
    using assms by (rule POST_owner)
  have a: "appSession ?w1 sid = Some (s\<lparr>status := PROCESSING, stoppedAt := Some clock\<rparr>)"
    by simp
  have r: "transcriptChunk ?w1 = transcriptChunk w" by simp
  have 1: "\<forall>text w2 fx. generateSessionSummary env ?w1 sid = (Resolved text, w2, fx) \<longrightarrow>
                  appSession w2 sid
                    = Some (s\<lparr>status := COMPLETED, stoppedAt := Some clock, summary := Some text,
                              completedAt := Some (now env)\<rparr>)"
    using generateSessionSummary_Resolved(1) [OF a] by auto
  have 2: "\<forall>e w2 fx. generateSessionSummary env ?w1 sid = (Rejected e, w2, fx) \<longrightarrow>
                  appSession w2 sid = Some (s\<lparr>status := FAILED, stoppedAt := Some clock\<rparr>) \<and>
                  AppSession.summary (the (appSession w2 sid)) = AppSession.summary s"
    using generateSessionSummary_Rejected(1) [OF a] by auto
  have 3: "\<forall>t. SummaryCall t \<in> set (snd (snd (generateSessionSummary env ?w1 sid))) \<longrightarrow>
                  (\<exists>row\<in>set (transcriptChunk w). TranscriptChunk.sessionId row = sid
                      \<and> isRealTranscript (TranscriptChunk.transcript row))"
    using generateSessionSummary_call [of _ env ?w1 sid] r by auto
  from p a r 1 2 3 show ?thesis by blast
qed

theorem stop_then_summary_witness:
  "''s1'' \<noteq> [] \<and>
   appSession \<lparr>wsSessions = Map.empty, restSessions = Map.empty, sessionMetadata = Map.empty,
      transcriptChunk = [\<lparr>chunkId = 1, sessionId = ''s1'', chunkIndex = 0, transcript = ''hello'',
                           startTime = 0, endTime = 30\<rparr>],
      appSession = Map.empty(''s1'' \<mapsto> \<lparr>userId = ''u1'', status = RECORDING,
           transcript = None, summary = None, stoppedAt = None, completedAt = None\<rparr>)\<rparr> ''s1''
     = Some \<lparr>userId = ''u1'', status = RECORDING,
           transcript = None, summary = None, stoppedAt = None, completedAt = None\<rparr> \<and>
   userId \<lparr>userId = ''u1'', status = RECORDING,
           transcript = None, summary = None, stoppedAt = None, completedAt = None\<rparr> = ''u1'' \<and>
   fst (POST (Some ''u1'') 7
      \<lparr>wsSessions = Map.empty, restSessions = Map.empty, sessionMetadata = Map.empty,
      transcriptChunk = [\<lparr>chunkId = 1, sessionId = ''s1'', chunkIndex = 0, transcript = ''hello'',
                           startTime = 0, endTime = 30\<rparr>],
      appSession = Map.empty(''s1'' \<mapsto> \<lparr>userId = ''u1'', status = RECORDING,
           transcript = None, summary = None, stoppedAt = None, completedAt = None\<rparr>)\<rparr> ''s1'')
     = Success ''Session stopped. Summary generation started.'' \<and>
   appSession (fst (snd (generateSessionSummary \<lparr>generateSummary = Inr ''ok'', now = 9\<rparr>
     (fst (snd (POST (Some ''u1'') 7
      \<lparr>wsSessions = Map.empty, restSessions = Map.empty, sessionMetadata = Map.empty,
      transcriptChunk = [\<lparr>chunkId = 1, sessionId = ''s1'', chunkIndex = 0, transcript = ''hello'',
                           startTime = 0, endTime = 30\<rparr>],
      appSession = Map.empty(''s1'' \<mapsto> \<lparr>userId = ''u1'', status = RECORDING,
           transcript = None, summary = None, stoppedAt = None, completedAt = None\<rparr>)\<rparr> ''s1'')))
     ''s1''))) ''s1''
     = Some \<lparr>userId = ''u1'', status = COMPLETED, transcript = None, summary = Some ''ok'',
            stoppedAt = Some 7, completedAt = Some 9\<rparr> \<and>
   appSession (fst (snd (generateSessionSummary \<lparr>generateSummary = Inl (ErrorObj ''quota''), now = 9\<rparr>
     (fst (snd (POST (Some ''u1'') 7
      \<lparr>wsSessions = Map.empty, restSessions = Map.empty, sessionMetadata = Map.empty,
      transcriptChunk = [\<lparr>chunkId = 1, sessionId = ''s1'', chunkIndex = 0, transcript = ''hello'',
                           startTime = 0, endTime = 30\<rparr>],
      appSession = Map.empty(''s1'' \<mapsto> \<lparr>userId = ''u1'', status = RECORDING,
           transcript = None, summary = None, stoppedAt = None, completedAt = None\<rparr>)\<rparr> ''s1'')))
     ''s1''))) ''s1''
     = Some \<lparr>userId = ''u1'', status = FAILED, transcript = None, summary = None,
            stoppedAt = Some 7, completedAt = None\<rparr>"
proof -
  let ?s = "\<lparr>userId = ''u1'', status = RECORDING,
           transcript = None, summary = None, stoppedAt = None, completedAt = None\<rparr>"
  let ?w = "\<lparr>wsSessions = Map.empty, restSessions = Map.empty, sessionMetadata = Map.empty,
      transcriptChunk = [\<lparr>chunkId = 1, sessionId = ''s1'', chunkIndex = 0, transcript = ''hello'',
                           startTime = 0, endTime = 30\<rparr>],
      appSession = Map.empty(''s1'' \<mapsto> ?s)\<rparr>"
  let ?ok = "\<lparr>generateSummary = Inr ''ok'', now = 9\<rparr>"
  let ?bad = "\<lparr>generateSummary = Inl (ErrorObj ''quota''), now = 9\<rparr>"
  let ?w1 = "fst (snd (POST (Some ''u1'') 7 ?w ''s1''))"
  have h1: "''s1'' \<noteq> []" by simp
  have h2: "appSession ?w ''s1'' = Some ?s" by simp
  have h3: "userId ?s = ''u1''" by simp
  have r: "fst (generateSessionSummary ?ok ?w1 ''s1'') = Resolved ''ok''"
    by code_simp
  have j: "fst (generateSessionSummary ?bad ?w1 ''s1'') = Rejected (ErrorObj ''quota'')"
    by code_simp
  from r obtain w2 fx where r': "generateSessionSummary ?ok ?w1 ''s1'' = (Resolved ''ok'', w2, fx)"
    by (cases "generateSessionSummary ?ok ?w1 ''s1''") auto
  from j obtain w3 fx' where j': "generateSessionSummary ?bad ?w1 ''s1'' = (Rejected (ErrorObj ''quota''), w3, fx')"
    by (cases "generateSessionSummary ?bad ?w1 ''s1''") auto
  from stop_then_summary [OF h1 h2 h3, of 7 ?ok] r'
  have a: "fst (POST (Some ''u1'') 7 ?w ''s1'') = Success ''Session stopped. Summary generation started.''"
    and b: "appSession (fst (snd (generateSessionSummary ?ok ?w1 ''s1''))) ''s1''
              = Some \<lparr>userId = ''u1'', status = COMPLETED, transcript = None, summary = Some ''ok'',
                       stoppedAt = Some 7, completedAt = Some 9\<rparr>"
    by auto
  from stop_then_summary [OF h1 h2 h3, of 7 ?bad] j'
  have c: "appSession (fst (snd (generateSessionSummary ?bad ?w1 ''s1''))) ''s1''
              = Some \<lparr>userId = ''u1'', status = FAILED, transcript = None, summary = None,
                       stoppedAt = Some 7, completedAt = None\<rparr>"
    by auto
  from h1 h2 h3 a b c show ?thesis by blast
qed

section \<open>Facts about substrings and trimming\<close>

lemma sublist_drop_leading:
  assumes "sublist x (l @ ys)" "x \<noteq> []" "\<not> isWhitespace (hd x)" "\<forall>c\<in>set l. isWhitespace c"
  shows "sublist x ys"
  using assms
proof (induction l)
  case Nil
  then show ?case by simp
next
  case (Cons c l)
  from Cons.prems(1) have "prefix x (c # l @ ys) \<or> sublist x (l @ ys)"
    by (simp add: sublist_Cons_right)
  moreover have "\<not> prefix x (c # l @ ys)"
  proof
    assume "prefix x (c # l @ ys)"
    with Cons.prems(2) have "hd x = c" by (cases x) auto
    with Cons.prems(3,4) show False by simp
  qed
  ultimately have "sublist x (l @ ys)" by blast
  with Cons.IH Cons.prems show ?case by simp
qed

lemma sublist_drop_trailing:
  assumes "sublist x (ys @ r)" "x \<noteq> []" "\<not> isWhitespace (last x)" "\<forall>c\<in>set r. isWhitespace c"
  shows "sublist x ys"
proof -
  from assms(1) have "sublist (rev x) (rev r @ rev ys)"
    by (metis rev_append sublist_rev)
  moreover from assms(2,3) have "rev x \<noteq> []" "\<not> isWhitespace (hd (rev x))"
    by (simp_all add: hd_rev)
  moreover from assms(4) have "\<forall>c\<in>set (rev r). isWhitespace c" by simp
  ultimately have "sublist (rev x) (rev ys)"
    by (rule sublist_drop_leading)
  then show ?thesis by simp
qed

lemma sublist_trim_mono:
  assumes "sublist b a"
  shows "sublist (trim b) (trim a)"
proof (cases "trim b = []")
  case True
  then show ?thesis by simp
next
  case False
  have tb: "trimmed (trim b)" by (rule trimmed_trim)
  with False have h: "\<not> isWhitespace (hd (trim b))" and l: "\<not> isWhitespace (last (trim b))"
    by (simp_all add: trimmed_def)
  have "sublist (trim b) b" by (rule trim_sublist)
  from this assms have 1: "sublist (trim b) a"
    by (rule sublist_order.order_trans)
  obtain l' r' where d: "a = l' @ trim a @ r'" "\<forall>c\<in>set l'. isWhitespace c" "\<forall>c\<in>set r'. isWhitespace c"
    using trim_decomp by blast
  from 1 d(1) have "sublist (trim b) (l' @ (trim a @ r'))" by simp
  then have "sublist (trim b) (trim a @ r')"
    using False h d(2) by (rule sublist_drop_leading)
  then show ?thesis
    using False l d(3) by (rule sublist_drop_trailing)
qed

lemma includes_trim_mono:
  "includes_str a b \<Longrightarrow> includes_str (trim a) (trim b)"
  by (simp add: includes_str_sublist sublist_trim_mono)

lemma joined_trimmed:
  assumes "\<not> includes_str (trim a) (trim b)"
  shows "trim (if trim a \<noteq> [] then trim a @ '' '' @ trim b else trim b)
           = (if trim a \<noteq> [] then trim a @ '' '' @ trim b else trim b)"
proof -
  have nb: "trim b \<noteq> []"
  proof
    assume "trim b = []"
    then have "includes_str (trim a) (trim b)"
      by (simp add: includes_str_sublist)
    with assms show False by simp
  qed
  show ?thesis
  proof (cases "trim a = []")
    case True
    then show ?thesis by (simp add: trim_idem)
  next
    case False
    with nb have "trimmed (trim a @ '' '' @ trim b)"
      by (intro trimmed_join trimmed_trim)
    with False show ?thesis by (simp add: trim_trimmed)
  qed
qed

lemma joined_includes:
  "includes_str (if trim a \<noteq> [] then trim a @ '' '' @ trim b else trim b) (trim b)"
proof (cases "trim a = []")
  case True
  then show ?thesis by (simp add: includes_str_refl)
next
  case False
  have "trim a @ '' '' @ trim b = (trim a @ '' '') @ trim b @ []" by simp
  then have "includes_str (trim a @ '' '' @ trim b) (trim b)"
    by (simp only: includes_str_iff) blast
  with False show ?thesis by simp
qed

section \<open>Facts about the two merge paths\<close>

lemma finishTranscriptChunk_rows [simp]:
  "transcriptChunk (fst (finishTranscriptChunk w sid text idx startT endT)) = transcriptChunk w"
  by (simp add: finishTranscriptChunk_def)

lemma handler_skip:
  assumes "findFirst (transcriptChunk w) sid idx = Some row"
      and "includes_str (trim (TranscriptChunk.transcript row)) (trim text)"
  shows "transcriptChunkHandler w sid text idx = (w, [])"
  using assms by (simp add: transcriptChunkHandler_def Let_def)

lemma handler_update:
  assumes "sid \<noteq> []" "trim sid \<noteq> []" "\<not> isPlaceholderClient text"
      and "findFirst (transcriptChunk w) sid idx = Some row"
      and "\<not> includes_str (trim (TranscriptChunk.transcript row)) (trim text)"
  shows "transcriptChunkHandler w sid text idx
           = finishTranscriptChunk
               (w\<lparr>transcriptChunk := updateTranscript (transcriptChunk w) (chunkId row)
                     (if trim (TranscriptChunk.transcript row) \<noteq> []
                      then trim (TranscriptChunk.transcript row) @ '' '' @ trim text
                      else trim text)\<rparr>)
               sid text idx (idx * 30) (idx * 30 + 30)"
  using assms joined_trimmed [OF assms(5)]
  by (simp add: transcriptChunkHandler_def Let_def)

lemma handler_create:
  assumes "sid \<noteq> []" "trim sid \<noteq> []" "\<not> isPlaceholderClient text"
      and "findFirst (transcriptChunk w) sid idx = None"
      and "appSession w sid \<noteq> None" and "fitsInteger (idx * 30 + 30)"
  shows "transcriptChunkHandler w sid text idx
           = finishTranscriptChunk
               (w\<lparr>transcriptChunk := appendChunk (transcriptChunk w) sid idx (trim text)
                     (idx * 30) (idx * 30 + 30)\<rparr>)
               sid text idx (idx * 30) (idx * 30 + 30)"
proof -
  have "idx \<le> idx * 30 + 30" "idx * 30 \<le> idx * 30 + 30" by simp_all
  with assms(6) have "fitsInteger idx" "fitsInteger (idx * 30)"
    by (blast intro: fitsInteger_mono)+
  with assms(5,6)
  have "createChunk w sid idx (trim text) (idx * 30) (idx * 30 + 30)
          = Inr (appendChunk (transcriptChunk w) sid idx (trim text) (idx * 30) (idx * 30 + 30))"
    by (intro createChunk_Inr)
  with assms(1-4) show ?thesis
    by (simp add: transcriptChunkHandler_def Let_def)
qed

lemma handler_create_throws:
  assumes "sid \<noteq> []" "trim sid \<noteq> []" "\<not> isPlaceholderClient text"
      and "findFirst (transcriptChunk w) sid idx = None"
      and "appSession w sid = None \<or> \<not> fitsInteger (idx * 30 + 30)"
  shows "transcriptChunkHandler w sid text idx
           = (w, [Emit (TranscriptError ''Failed to store transcript chunk'' idx)])"
  using assms by (auto simp: transcriptChunkHandler_def Let_def createChunk_def)

lemma handler_blocked:
  "sid = [] \<or> trim sid = [] \<or> isPlaceholderClient text
     \<Longrightarrow> transcriptChunkHandler w sid text idx = (w, [])"
  by (auto simp: transcriptChunkHandler_def)

lemma handler_idempotent:
  assumes "appSession w sid \<noteq> None" and "fitsInteger (idx * 30 + 30)"
  shows "transcriptChunkHandler (fst (transcriptChunkHandler w sid text idx)) sid text idx
           = (fst (transcriptChunkHandler w sid text idx), [])"
proof (cases "sid = [] \<or> trim sid = [] \<or> isPlaceholderClient text")
  case True
  then show ?thesis by (simp add: handler_blocked)
next
  case False
  then have ok: "sid \<noteq> []" "trim sid \<noteq> []" "\<not> isPlaceholderClient text" by simp_all
  show ?thesis
  proof (cases "findFirst (transcriptChunk w) sid idx")
    case None
    let ?w1 = "fst (transcriptChunkHandler w sid text idx)"
    from handler_create [OF ok None assms]
    have "findFirst (transcriptChunk ?w1) sid idx
            = Some \<lparr>chunkId = freshId (transcriptChunk w), sessionId = sid, chunkIndex = idx,
                     transcript = trim text, startTime = idx * 30, endTime = idx * 30 + 30\<rparr>"
      using findFirst_create [OF None] by simp
    then show ?thesis
      by (rule handler_skip) (simp add: trim_idem includes_str_refl)
  next
    case (Some row)
    show ?thesis
    proof (cases "includes_str (trim (TranscriptChunk.transcript row)) (trim text)")
      case True
      with Some show ?thesis by (simp add: handler_skip)
    next
      case False
      let ?w1 = "fst (transcriptChunkHandler w sid text idx)"
      let ?u = "if trim (TranscriptChunk.transcript row) \<noteq> []
                then trim (TranscriptChunk.transcript row) @ '' '' @ trim text else trim text"
      from handler_update [OF ok Some False]
      have "findFirst (transcriptChunk ?w1) sid idx = Some (row\<lparr>TranscriptChunk.transcript := ?u\<rparr>)"
        using findFirst_update [OF Some] by simp
      then show ?thesis
      proof (rule handler_skip)
        have "trim ?u = ?u" by (rule joined_trimmed [OF False])
        moreover have "includes_str ?u (trim text)" by (rule joined_includes)
        ultimately show "includes_str (trim (TranscriptChunk.transcript
                            (row\<lparr>TranscriptChunk.transcript := ?u\<rparr>))) (trim text)"
          by simp
      qed
    qed
  qed
qed

lemma findFirst_Some_count:
  "findFirst rows sid idx = Some row \<Longrightarrow> 1 \<le> length (filter (matches sid idx) rows)"
  using findFirst_None_count [of rows sid idx] by (cases "length (filter (matches sid idx) rows)") auto

lemma handler_count:
  assumes "sid \<noteq> []" "trim sid \<noteq> []" "\<not> isPlaceholderClient text"
      and "length (filter (matches sid idx) (transcriptChunk w)) \<le> 1"
      and "appSession w sid \<noteq> None" and "fitsInteger (idx * 30 + 30)"
  shows "length (filter (matches sid idx)
           (transcriptChunk (fst (transcriptChunkHandler w sid text idx)))) = 1"
proof (cases "findFirst (transcriptChunk w) sid idx")
  case None
  then have "length (filter (matches sid idx) (transcriptChunk w)) = 0"
    by (simp add: findFirst_None_count)
  with handler_create [OF assms(1-3) None assms(5,6)] show ?thesis
    by (simp add: count_create)
next
  case (Some row)
  from findFirst_Some_count [OF Some] assms(4)
  have c: "length (filter (matches sid idx) (transcriptChunk w)) = 1" by simp
  show ?thesis
  proof (cases "includes_str (trim (TranscriptChunk.transcript row)) (trim text)")
    case True
    with Some c show ?thesis by (simp add: handler_skip)
  next
    case False
    from handler_update [OF assms(1-3) Some False] c show ?thesis
      by (simp add: count_update)
  qed
qed

lemma storeChunk_same:
  assumes "findFirst (transcriptChunk w) (AudioChunk.sessionId chunk) (AudioChunk.chunkIndex chunk)
             = Some row"
      and "TranscriptChunk.transcript row = text"
  shows "\<exists>w'. storeChunk w chunk text = Inr w' \<and> transcriptChunk w' = transcriptChunk w"
  using assms by (simp add: storeChunk_def)

lemma storeChunk_replace:
  assumes "\<not> isPlaceholder text"
      and "findFirst (transcriptChunk w) (AudioChunk.sessionId chunk) (AudioChunk.chunkIndex chunk)
             = Some row"
  shows "\<exists>w'. storeChunk w chunk text = Inr w' \<and>
           findFirst (transcriptChunk w') (AudioChunk.sessionId chunk) (AudioChunk.chunkIndex chunk)
             = Some (row\<lparr>TranscriptChunk.transcript := text\<rparr>)"
proof (cases "TranscriptChunk.transcript row = text")
  case True
  then have "row\<lparr>TranscriptChunk.transcript := text\<rparr> = row" by auto
  with assms True show ?thesis by (simp add: storeChunk_def)
next
  case False
  with assms show ?thesis by (simp add: storeChunk_def findFirst_update)
qed

lemma storeChunk_count:
  assumes "\<not> isPlaceholder text"
      and "length (filter (matches (AudioChunk.sessionId chunk) (AudioChunk.chunkIndex chunk))
             (transcriptChunk w)) \<le> 1"
      and "appSession w (AudioChunk.sessionId chunk) \<noteq> None"
      and "fitsInteger (AudioChunk.chunkIndex chunk)"
      and "fitsInteger (AudioChunk.startTime chunk)"
      and "fitsInteger (AudioChunk.endTime chunk)"
  shows "\<exists>w'. storeChunk w chunk text = Inr w' \<and>
           length (filter (matches (AudioChunk.sessionId chunk) (AudioChunk.chunkIndex chunk))
             (transcriptChunk w')) = 1"
proof (cases "findFirst (transcriptChunk w) (AudioChunk.sessionId chunk) (AudioChunk.chunkIndex chunk)")
  case None
  then have "length (filter (matches (AudioChunk.sessionId chunk) (AudioChunk.chunkIndex chunk))
               (transcriptChunk w)) = 0"
    by (simp add: findFirst_None_count)
  with assms(1) None createChunk_Inr [OF assms(3-6), of "text"] show ?thesis
    by (simp add: storeChunk_def count_create)
next
  case (Some row)
  from findFirst_Some_count [OF Some] assms(2)
  have "length (filter (matches (AudioChunk.sessionId chunk) (AudioChunk.chunkIndex chunk))
               (transcriptChunk w)) = 1" by simp
  with assms(1) Some show ?thesis
    by (simp add: storeChunk_def count_update)
qed

text \<open>
  The handlers take no lock and the table has no unique index on the session id and the
  chunk index: when two runs have both looked the row up before either has created it,
  each of them appends one.
\<close>

lemma two_creates_two_rows:
  "findFirst rows sid idx = None \<Longrightarrow>
     length (filter (matches sid idx)
       (appendChunk (appendChunk rows sid idx t startT endT) sid idx t startT endT)) = 2"
  by (simp add: count_create findFirst_None_count)

section \<open>Merging into the row of a chunk\<close>

text \<open>
  Claim C2, as amended. For a merge into an existing row: on the \<open>transcript:chunk\<close>
  path (client-side recognition), when the trimmed stored text does not contain the
  trimmed new text, the row's text becomes the trimmed stored text, one space, and the
  trimmed new text (the trimmed new text alone when the stored text is blank); on the
  \<open>processAudioChunk\<close> path the row's text is replaced by the new text.
\<close>

theorem chunk_row_update_rule:
  assumes "findFirst (transcriptChunk w) sid idx = Some row"
  shows "(sid \<noteq> [] \<and> trim sid \<noteq> [] \<and> \<not> isPlaceholderClient text
          \<and> \<not> includes_str (trim (TranscriptChunk.transcript row)) (trim text)
          \<longrightarrow> findFirst (transcriptChunk (fst (transcriptChunkHandler w sid text idx))) sid idx
                = Some (row\<lparr>TranscriptChunk.transcript :=
                          (if trim (TranscriptChunk.transcript row) \<noteq> []
                           then trim (TranscriptChunk.transcript row) @ '' '' @ trim text
                           else trim text)\<rparr>))
       \<and> (AudioChunk.sessionId chunk = sid \<and> AudioChunk.chunkIndex chunk = idx
          \<and> fst (transcribeChunk env w chunk) = Some final \<and> \<not> isPlaceholder final
          \<longrightarrow> findFirst (transcriptChunk (fst (processAudioChunk env w chunk))) sid idx
                = Some (row\<lparr>TranscriptChunk.transcript := final\<rparr>))"
proof (intro conjI impI)
  assume a: "sid \<noteq> [] \<and> trim sid \<noteq> [] \<and> \<not> isPlaceholderClient text
          \<and> \<not> includes_str (trim (TranscriptChunk.transcript row)) (trim text)"
  then have "transcriptChunkHandler w sid text idx
           = finishTranscriptChunk
               (w\<lparr>transcriptChunk := updateTranscript (transcriptChunk w) (chunkId row)
                     (if trim (TranscriptChunk.transcript row) \<noteq> []
                      then trim (TranscriptChunk.transcript row) @ '' '' @ trim text
                      else trim text)\<rparr>)
               sid text idx (idx * 30) (idx * 30 + 30)"
    using assms by (intro handler_update) simp_all
  then show "findFirst (transcriptChunk (fst (transcriptChunkHandler w sid text idx))) sid idx
                = Some (row\<lparr>TranscriptChunk.transcript :=
                          (if trim (TranscriptChunk.transcript row) \<noteq> []
                           then trim (TranscriptChunk.transcript row) @ '' '' @ trim text
                           else trim text)\<rparr>)"
    using findFirst_update [OF assms] by simp
next
  assume b: "AudioChunk.sessionId chunk = sid \<and> AudioChunk.chunkIndex chunk = idx
          \<and> fst (transcribeChunk env w chunk) = Some final \<and> \<not> isPlaceholder final"
  let ?w' = "fst (snd (transcribeChunk env w chunk))"
  have t: "transcriptChunk ?w' = transcriptChunk w"
    using transcribeChunk_tables [of env w chunk] by simp
  from assms b t have "findFirst (transcriptChunk ?w') (AudioChunk.sessionId chunk)
                          (AudioChunk.chunkIndex chunk) = Some row"
    by simp
  from storeChunk_replace [OF _ this, of final] b
  obtain w' where st: "storeChunk ?w' chunk final = Inr w'"
      "findFirst (transcriptChunk w') (AudioChunk.sessionId chunk) (AudioChunk.chunkIndex chunk)
         = Some (row\<lparr>TranscriptChunk.transcript := final\<rparr>)"
    by blast
  from b have "fst (transcribeChunk env w chunk) = Some final" by simp
  from processAudioChunk_Some(1) [OF this st(1)] st(2) b
  show "findFirst (transcriptChunk (fst (processAudioChunk env w chunk))) sid idx
                = Some (row\<lparr>TranscriptChunk.transcript := final\<rparr>)"
    by simp
qed

theorem chunk_row_update_rule_witness:
  "findFirst (transcriptChunk
      \<lparr>wsSessions = Map.empty(''s1'' \<mapsto> \<lparr>geminiWs = Some OPEN, transcriptBuffer = [], lastChunkIndex = 0, isConnected = True\<rparr>),
      restSessions = Map.empty, sessionMetadata = Map.empty,
      transcriptChunk = [\<lparr>chunkId = 1, sessionId = ''s1'', chunkIndex = 0, transcript = ''hello'',
        startTime = 0, endTime = 30\<rparr>],
      appSession = Map.empty(''s1'' \<mapsto> \<lparr>userId = ''u1'', status = RECORDING, transcript = Some ''[0s - 30s]\<newline>hello'', summary = None,
        stoppedAt = None, completedAt = None\<rparr>)\<rparr>) ''s1'' 0
     = Some \<lparr>chunkId = 1, sessionId = ''s1'', chunkIndex = 0, transcript = ''hello'',
        startTime = 0, endTime = 30\<rparr> \<and>
   (''s1'' \<noteq> [] \<and> trim ''s1'' \<noteq> [] \<and> \<not> isPlaceholderClient ''world''
      \<and> \<not> includes_str (trim ''hello'') (trim ''world'')) \<and>
   findFirst (transcriptChunk (fst (transcriptChunkHandler
      \<lparr>wsSessions = Map.empty(''s1'' \<mapsto> \<lparr>geminiWs = Some OPEN, transcriptBuffer = [], lastChunkIndex = 0, isConnected = True\<rparr>),
      restSessions = Map.empty, sessionMetadata = Map.empty,
      transcriptChunk = [\<lparr>chunkId = 1, sessionId = ''s1'', chunkIndex = 0, transcript = ''hello'',
        startTime = 0, endTime = 30\<rparr>],
      appSession = Map.empty(''s1'' \<mapsto> \<lparr>userId = ''u1'', status = RECORDING, transcript = Some ''[0s - 30s]\<newline>hello'', summary = None,
        stoppedAt = None, completedAt = None\<rparr>)\<rparr>
      ''s1'' ''world'' 0))) ''s1'' 0
     = Some \<lparr>chunkId = 1, sessionId = ''s1'', chunkIndex = 0, transcript = ''hello world'',
        startTime = 0, endTime = 30\<rparr> \<and>
   (fst (transcribeChunk
      \<lparr>primary = \<lparr>buildThrows = None, sendThrows = None, awaited = Some ''world''\<rparr>,
      secondary = \<lparr>apiKeySet = True, response = RestNoParts\<rparr>\<rparr>
      \<lparr>wsSessions = Map.empty(''s1'' \<mapsto> \<lparr>geminiWs = Some OPEN, transcriptBuffer = [], lastChunkIndex = 0, isConnected = True\<rparr>),
      restSessions = Map.empty, sessionMetadata = Map.empty,
      transcriptChunk = [\<lparr>chunkId = 1, sessionId = ''s1'', chunkIndex = 0, transcript = ''hello'',
        startTime = 0, endTime = 30\<rparr>],
      appSession = Map.empty(''s1'' \<mapsto> \<lparr>userId = ''u1'', status = RECORDING, transcript = Some ''[0s - 30s]\<newline>hello'', summary = None,
        stoppedAt = None, completedAt = None\<rparr>)\<rparr>
      \<lparr>AudioChunk.sessionId = ''s1'', AudioChunk.chunkIndex = 0, audioData = [1],
      AudioChunk.startTime = 0, AudioChunk.endTime = 30\<rparr>) = Some ''world'' \<and> \<not> isPlaceholder ''world'') \<and>
   findFirst (transcriptChunk (fst (processAudioChunk
      \<lparr>primary = \<lparr>buildThrows = None, sendThrows = None, awaited = Some ''world''\<rparr>,
      secondary = \<lparr>apiKeySet = True, response = RestNoParts\<rparr>\<rparr>
      \<lparr>wsSessions = Map.empty(''s1'' \<mapsto> \<lparr>geminiWs = Some OPEN, transcriptBuffer = [], lastChunkIndex = 0, isConnected = True\<rparr>),
      restSessions = Map.empty, sessionMetadata = Map.empty,
      transcriptChunk = [\<lparr>chunkId = 1, sessionId = ''s1'', chunkIndex = 0, transcript = ''hello'',
        startTime = 0, endTime = 30\<rparr>],
      appSession = Map.empty(''s1'' \<mapsto> \<lparr>userId = ''u1'', status = RECORDING, transcript = Some ''[0s - 30s]\<newline>hello'', summary = None,
        stoppedAt = None, completedAt = None\<rparr>)\<rparr>
      \<lparr>AudioChunk.sessionId = ''s1'', AudioChunk.chunkIndex = 0, audioData = [1],
      AudioChunk.startTime = 0, AudioChunk.endTime = 30\<rparr>))) ''s1'' 0
     = Some \<lparr>chunkId = 1, sessionId = ''s1'', chunkIndex = 0, transcript = ''world'',
        startTime = 0, endTime = 30\<rparr>"
proof -
  let ?row = "\<lparr>chunkId = 1, sessionId = ''s1'', chunkIndex = 0, transcript = ''hello'',
        startTime = 0, endTime = 30\<rparr>"
  let ?w = "\<lparr>wsSessions = Map.empty(''s1'' \<mapsto> \<lparr>geminiWs = Some OPEN, transcriptBuffer = [], lastChunkIndex = 0, isConnected = True\<rparr>),
      restSessions = Map.empty, sessionMetadata = Map.empty,
      transcriptChunk = [\<lparr>chunkId = 1, sessionId = ''s1'', chunkIndex = 0, transcript = ''hello'',
        startTime = 0, endTime = 30\<rparr>],
      appSession = Map.empty(''s1'' \<mapsto> \<lparr>userId = ''u1'', status = RECORDING, transcript = Some ''[0s - 30s]\<newline>hello'', summary = None,
        stoppedAt = None, completedAt = None\<rparr>)\<rparr>"
  let ?env = "\<lparr>primary = \<lparr>buildThrows = None, sendThrows = None, awaited = Some ''world''\<rparr>,
      secondary = \<lparr>apiKeySet = True, response = RestNoParts\<rparr>\<rparr>"
  let ?chunk = "\<lparr>AudioChunk.sessionId = ''s1'', AudioChunk.chunkIndex = 0, audioData = [1],
      AudioChunk.startTime = 0, AudioChunk.endTime = 30\<rparr>"
  have h: "findFirst (transcriptChunk ?w) ''s1'' 0 = Some ?row"
    by code_simp
  have a: "''s1'' \<noteq> [] \<and> trim ''s1'' \<noteq> [] \<and> \<not> isPlaceholderClient ''world''
             \<and> \<not> includes_str (trim (TranscriptChunk.transcript ?row)) (trim ''world'')"
    by code_simp
  have b: "AudioChunk.sessionId ?chunk = ''s1'' \<and> AudioChunk.chunkIndex ?chunk = 0
             \<and> fst (transcribeChunk ?env ?w ?chunk) = Some ''world'' \<and> \<not> isPlaceholder ''world''"
    by code_simp
  have e: "(if trim (TranscriptChunk.transcript ?row) \<noteq> []
            then trim (TranscriptChunk.transcript ?row) @ '' '' @ trim ''world'' else trim ''world'')
             = ''hello world''"
    by code_simp
  from chunk_row_update_rule [OF h, of "''world''" ?chunk ?env "''world''"] a b
  have "findFirst (transcriptChunk (fst (transcriptChunkHandler ?w ''s1'' ''world'' 0))) ''s1'' 0
          = Some (?row\<lparr>TranscriptChunk.transcript :=
                    (if trim (TranscriptChunk.transcript ?row) \<noteq> []
                     then trim (TranscriptChunk.transcript ?row) @ '' '' @ trim ''world''
                     else trim ''world'')\<rparr>)"
   and "findFirst (transcriptChunk (fst (processAudioChunk ?env ?w ?chunk))) ''s1'' 0
          = Some (?row\<lparr>TranscriptChunk.transcript := ''world''\<rparr>)"
    by blast+
  with h a b e show ?thesis by simp
qed

text \<open>
  Claim C2 as stated has the two paths the other way round: with the stored text
  \<open>hello\<close> and the new text \<open>world\<close>, the \<open>transcript:chunk\<close> path stores
  \<open>hello world\<close> (it does not replace) and \<open>processAudioChunk\<close> stores \<open>world\<close>
  (it does not append).
\<close>

theorem chunk_row_update_rule_counterexample:
  "map TranscriptChunk.transcript (transcriptChunk (fst (transcriptChunkHandler
      \<lparr>wsSessions = Map.empty(''s1'' \<mapsto> \<lparr>geminiWs = Some OPEN, transcriptBuffer = [], lastChunkIndex = 0, isConnected = True\<rparr>),
      restSessions = Map.empty, sessionMetadata = Map.empty,
      transcriptChunk = [\<lparr>chunkId = 1, sessionId = ''s1'', chunkIndex = 0, transcript = ''hello'',
        startTime = 0, endTime = 30\<rparr>],
      appSession = Map.empty(''s1'' \<mapsto> \<lparr>userId = ''u1'', status = RECORDING, transcript = Some ''[0s - 30s]\<newline>hello'', summary = None,
        stoppedAt = None, completedAt = None\<rparr>)\<rparr>
      ''s1'' ''world'' 0))) = [''hello world''] \<and>
   map TranscriptChunk.transcript (transcriptChunk (fst (processAudioChunk
      \<lparr>primary = \<lparr>buildThrows = None, sendThrows = None, awaited = Some ''world''\<rparr>,
      secondary = \<lparr>apiKeySet = True, response = RestNoParts\<rparr>\<rparr>
      \<lparr>wsSessions = Map.empty(''s1'' \<mapsto> \<lparr>geminiWs = Some OPEN, transcriptBuffer = [], lastChunkIndex = 0, isConnected = True\<rparr>),
      restSessions = Map.empty, sessionMetadata = Map.empty,
      transcriptChunk = [\<lparr>chunkId = 1, sessionId = ''s1'', chunkIndex = 0, transcript = ''hello'',
        startTime = 0, endTime = 30\<rparr>],
      appSession = Map.empty(''s1'' \<mapsto> \<lparr>userId = ''u1'', status = RECORDING, transcript = Some ''[0s - 30s]\<newline>hello'', summary = None,
        stoppedAt = None, completedAt = None\<rparr>)\<rparr>
      \<lparr>AudioChunk.sessionId = ''s1'', AudioChunk.chunkIndex = 0, audioData = [1],
      AudioChunk.startTime = 0, AudioChunk.endTime = 30\<rparr>))) = [''world'']"
  by code_simp

text \<open>
  Claim C1, as amended. For a session that has a row, an index and a time range that
  fit the columns, a text that is no placeholder, and a table with at most one row for
  the session id and chunk index, when the second submission is handled after the first
  has finished: after one submission through either path there is exactly one such
  row; a second submission of the same text through the \<open>transcript:chunk\<close> handler
  changes nothing at all, and through \<open>processAudioChunk\<close> it leaves the chunk table as
  it was, the row holding the submitted text. On the \<open>transcript:chunk\<close> path, when a
  row exists and the incoming text is a substring of the stored text, the handler
  changes nothing and emits nothing.
\<close>

theorem duplicate_submission:
  assumes "length (filter (matches sid idx) (transcriptChunk w)) \<le> 1"
      and "appSession w sid \<noteq> None"
  shows "(sid \<noteq> [] \<and> trim sid \<noteq> [] \<and> \<not> isPlaceholderClient text
          \<and> fitsInteger (idx * 30 + 30)
          \<longrightarrow> length (filter (matches sid idx)
                  (transcriptChunk (fst (transcriptChunkHandler w sid text idx)))) = 1)
       \<and> (fitsInteger (idx * 30 + 30)
          \<longrightarrow> transcriptChunkHandler (fst (transcriptChunkHandler w sid text idx)) sid text idx
                  = (fst (transcriptChunkHandler w sid text idx), []))
       \<and> (\<forall>row. findFirst (transcriptChunk w) sid idx = Some row
                 \<and> includes_str (TranscriptChunk.transcript row) text
             \<longrightarrow> transcriptChunkHandler w sid text idx = (w, []))
       \<and> (AudioChunk.sessionId chunk = sid \<and> AudioChunk.chunkIndex chunk = idx
          \<and> \<not> isPlaceholder text
          \<and> fitsInteger idx \<and> fitsInteger (AudioChunk.startTime chunk)
          \<and> fitsInteger (AudioChunk.endTime chunk)
          \<and> fst (transcribeChunk env1 w chunk) = Some text
          \<and> fst (transcribeChunk env2 (fst (processAudioChunk env1 w chunk)) chunk) = Some text
          \<longrightarrow> processAudioChunkOutcome env1 w chunk = Resolved ()
              \<and> length (filter (matches sid idx)
                  (transcriptChunk (fst (processAudioChunk env1 w chunk)))) = 1
              \<and> (\<exists>row. findFirst (transcriptChunk (fst (processAudioChunk env1 w chunk))) sid idx
                          = Some row \<and> TranscriptChunk.transcript row = text)
              \<and> processAudioChunkOutcome env2 (fst (processAudioChunk env1 w chunk)) chunk = Resolved ()
              \<and> transcriptChunk (fst (processAudioChunk env2 (fst (processAudioChunk env1 w chunk)) chunk))
                  = transcriptChunk (fst (processAudioChunk env1 w chunk)))"
proof (intro conjI impI allI)
  assume "sid \<noteq> [] \<and> trim sid \<noteq> [] \<and> \<not> isPlaceholderClient text
             \<and> fitsInteger (idx * 30 + 30)"
  with assms show "length (filter (matches sid idx)
                  (transcriptChunk (fst (transcriptChunkHandler w sid text idx)))) = 1"
    by (intro handler_count) simp_all
next
  assume "fitsInteger (idx * 30 + 30)"
  with assms(2)
  show "transcriptChunkHandler (fst (transcriptChunkHandler w sid text idx)) sid text idx
           = (fst (transcriptChunkHandler w sid text idx), [])"
    by (rule handler_idempotent)
next
  fix row
  assume "findFirst (transcriptChunk w) sid idx = Some row
            \<and> includes_str (TranscriptChunk.transcript row) text"
  then show "transcriptChunkHandler w sid text idx = (w, [])"
    by (intro handler_skip [of w sid idx row] includes_trim_mono) simp_all
next
  assume b: "AudioChunk.sessionId chunk = sid \<and> AudioChunk.chunkIndex chunk = idx
          \<and> \<not> isPlaceholder text
          \<and> fitsInteger idx \<and> fitsInteger (AudioChunk.startTime chunk)
          \<and> fitsInteger (AudioChunk.endTime chunk)
          \<and> fst (transcribeChunk env1 w chunk) = Some text
          \<and> fst (transcribeChunk env2 (fst (processAudioChunk env1 w chunk)) chunk) = Some text"
  let ?w' = "fst (snd (transcribeChunk env1 w chunk))"
  let ?w1 = "fst (processAudioChunk env1 w chunk)"
  let ?w1' = "fst (snd (transcribeChunk env2 ?w1 chunk))"
  from b have tr1: "fst (transcribeChunk env1 w chunk) = Some text" by simp
  from b have tr2: "fst (transcribeChunk env2 ?w1 chunk) = Some text" by simp
  have t1: "transcriptChunk ?w' = transcriptChunk w" "appSession ?w' = appSession w"
    using transcribeChunk_tables [of env1 w chunk] by simp_all
  have t2: "transcriptChunk ?w1' = transcriptChunk ?w1"
    using transcribeChunk_tables [of env2 ?w1 chunk] by simp
  from assms b t1 have c: "length (filter (matches (AudioChunk.sessionId chunk)
          (AudioChunk.chunkIndex chunk)) (transcriptChunk ?w')) \<le> 1"
    and se: "appSession ?w' (AudioChunk.sessionId chunk) \<noteq> None"
    and bd: "fitsInteger (AudioChunk.chunkIndex chunk)" "fitsInteger (AudioChunk.startTime chunk)"
            "fitsInteger (AudioChunk.endTime chunk)"
    by simp_all
  from b have np: "\<not> isPlaceholder text" by simp
  from storeChunk_count [OF np c se bd]
  obtain v where v: "storeChunk ?w' chunk text = Inr v"
      "length (filter (matches (AudioChunk.sessionId chunk) (AudioChunk.chunkIndex chunk))
         (transcriptChunk v)) = 1"
    by blast
  from processAudioChunk_Some [OF tr1 v(1)]
  have p1: "?w1 = v" and o1: "processAudioChunkOutcome env1 w chunk = Resolved ()"
    by simp_all
  from o1 show "processAudioChunkOutcome env1 w chunk = Resolved ()" .
  from v(2) p1 b
  show "length (filter (matches sid idx) (transcriptChunk ?w1)) = 1"
    by simp
  from storeChunk_row [OF np, of ?w' chunk] se bd v(1) p1 b
  obtain row where r: "findFirst (transcriptChunk ?w1) sid idx = Some row"
                      "TranscriptChunk.transcript row = text"
    by auto
  then show "\<exists>row. findFirst (transcriptChunk ?w1) sid idx = Some row
                \<and> TranscriptChunk.transcript row = text"
    by blast
  from r t2 b have "findFirst (transcriptChunk ?w1') (AudioChunk.sessionId chunk)
                      (AudioChunk.chunkIndex chunk) = Some row"
    by simp
  from storeChunk_same [OF this r(2)]
  obtain v2 where v2: "storeChunk ?w1' chunk text = Inr v2" "transcriptChunk v2 = transcriptChunk ?w1'"
    by blast
  from processAudioChunk_Some [OF tr2 v2(1)] v2(2) t2
  show "processAudioChunkOutcome env2 ?w1 chunk = Resolved ()"
   and "transcriptChunk (fst (processAudioChunk env2 ?w1 chunk)) = transcriptChunk ?w1"
    by simp_all
qed

theorem duplicate_submission_witness:
  "length (filter (matches ''s1'' 0) (transcriptChunk
      \<lparr>wsSessions = Map.empty(''s1'' \<mapsto> \<lparr>geminiWs = Some OPEN, transcriptBuffer = [], lastChunkIndex = 0, isConnected = True\<rparr>),
      restSessions = Map.empty, sessionMetadata = Map.empty,
      transcriptChunk = [],
      appSession = Map.empty(''s1'' \<mapsto> \<lparr>userId = ''u1'', status = RECORDING, transcript = None, summary = None,
        stoppedAt = None, completedAt = None\<rparr>)\<rparr>)) \<le> 1 \<and>
   appSession
      \<lparr>wsSessions = Map.empty(''s1'' \<mapsto> \<lparr>geminiWs = Some OPEN, transcriptBuffer = [], lastChunkIndex = 0, isConnected = True\<rparr>),
      restSessions = Map.empty, sessionMetadata = Map.empty,
      transcriptChunk = [],
      appSession = Map.empty(''s1'' \<mapsto> \<lparr>userId = ''u1'', status = RECORDING, transcript = None, summary = None,
        stoppedAt = None, completedAt = None\<rparr>)\<rparr> ''s1'' \<noteq> None \<and>
   (''s1'' \<noteq> [] \<and> trim ''s1'' \<noteq> [] \<and> \<not> isPlaceholderClient ''hello''
      \<and> fitsInteger (0 * 30 + 30)) \<and>
   length (filter (matches ''s1'' 0) (transcriptChunk (fst (transcriptChunkHandler
      \<lparr>wsSessions = Map.empty(''s1'' \<mapsto> \<lparr>geminiWs = Some OPEN, transcriptBuffer = [], lastChunkIndex = 0, isConnected = True\<rparr>),
      restSessions = Map.empty, sessionMetadata = Map.empty,
      transcriptChunk = [],
      appSession = Map.empty(''s1'' \<mapsto> \<lparr>userId = ''u1'', status = RECORDING, transcript = None, summary = None,
        stoppedAt = None, completedAt = None\<rparr>)\<rparr>
      ''s1'' ''hello'' 0)))) = 1 \<and>
   transcriptChunkHandler (fst (transcriptChunkHandler
      \<lparr>wsSessions = Map.empty(''s1'' \<mapsto> \<lparr>geminiWs = Some OPEN, transcriptBuffer = [], lastChunkIndex = 0, isConnected = True\<rparr>),
      restSessions = Map.empty, sessionMetadata = Map.empty,
      transcriptChunk = [],
      appSession = Map.empty(''s1'' \<mapsto> \<lparr>userId = ''u1'', status = RECORDING, transcript = None, summary = None,
        stoppedAt = None, completedAt = None\<rparr>)\<rparr>
      ''s1'' ''hello'' 0)) ''s1'' ''hello'' 0
     = (fst (transcriptChunkHandler
      \<lparr>wsSessions = Map.empty(''s1'' \<mapsto> \<lparr>geminiWs = Some OPEN, transcriptBuffer = [], lastChunkIndex = 0, isConnected = True\<rparr>),
      restSessions = Map.empty, sessionMetadata = Map.empty,
      transcriptChunk = [],
      appSession = Map.empty(''s1'' \<mapsto> \<lparr>userId = ''u1'', status = RECORDING, transcript = None, summary = None,
        stoppedAt = None, completedAt = None\<rparr>)\<rparr>
      ''s1'' ''hello'' 0), []) \<and>
   (\<not> isPlaceholder ''hello'' \<and>
    fst (transcribeChunk
      \<lparr>primary = \<lparr>buildThrows = None, sendThrows = None, awaited = Some ''hello''\<rparr>,
      secondary = \<lparr>apiKeySet = True, response = RestNoParts\<rparr>\<rparr>
      \<lparr>wsSessions = Map.empty(''s1'' \<mapsto> \<lparr>geminiWs = Some OPEN, transcriptBuffer = [], lastChunkIndex = 0, isConnected = True\<rparr>),
      restSessions = Map.empty, sessionMetadata = Map.empty,
      transcriptChunk = [],
      appSession = Map.empty(''s1'' \<mapsto> \<lparr>userId = ''u1'', status = RECORDING, transcript = None, summary = None,
        stoppedAt = None, completedAt = None\<rparr>)\<rparr>
      \<lparr>AudioChunk.sessionId = ''s1'', AudioChunk.chunkIndex = 0, audioData = [1],
      AudioChunk.startTime = 0, AudioChunk.endTime = 30\<rparr>) = Some ''hello'' \<and>
    fst (transcribeChunk
      \<lparr>primary = \<lparr>buildThrows = None, sendThrows = None, awaited = Some ''hello''\<rparr>,
      secondary = \<lparr>apiKeySet = True, response = RestNoParts\<rparr>\<rparr>
      (fst (processAudioChunk
      \<lparr>primary = \<lparr>buildThrows = None, sendThrows = None, awaited = Some ''hello''\<rparr>,
      secondary = \<lparr>apiKeySet = True, response = RestNoParts\<rparr>\<rparr>
      \<lparr>wsSessions = Map.empty(''s1'' \<mapsto> \<lparr>geminiWs = Some OPEN, transcriptBuffer = [], lastChunkIndex = 0, isConnected = True\<rparr>),
      restSessions = Map.empty, sessionMetadata = Map.empty,
      transcriptChunk = [],
      appSession = Map.empty(''s1'' \<mapsto> \<lparr>userId = ''u1'', status = RECORDING, transcript = None, summary = None,
        stoppedAt = None, completedAt = None\<rparr>)\<rparr>
      \<lparr>AudioChunk.sessionId = ''s1'', AudioChunk.chunkIndex = 0, audioData = [1],
      AudioChunk.startTime = 0, AudioChunk.endTime = 30\<rparr>))
      \<lparr>AudioChunk.sessionId = ''s1'', AudioChunk.chunkIndex = 0, audioData = [1],
      AudioChunk.startTime = 0, AudioChunk.endTime = 30\<rparr>) = Some ''hello'') \<and>
   length (filter (matches ''s1'' 0) (transcriptChunk (fst (processAudioChunk
      \<lparr>primary = \<lparr>buildThrows = None, sendThrows = None, awaited = Some ''hello''\<rparr>,
      secondary = \<lparr>apiKeySet = True, response = RestNoParts\<rparr>\<rparr>
      \<lparr>wsSessions = Map.empty(''s1'' \<mapsto> \<lparr>geminiWs = Some OPEN, transcriptBuffer = [], lastChunkIndex = 0, isConnected = True\<rparr>),
      restSessions = Map.empty, sessionMetadata = Map.empty,
      transcriptChunk = [],
      appSession = Map.empty(''s1'' \<mapsto> \<lparr>userId = ''u1'', status = RECORDING, transcript = None, summary = None,
        stoppedAt = None, completedAt = None\<rparr>)\<rparr>
      \<lparr>AudioChunk.sessionId = ''s1'', AudioChunk.chunkIndex = 0, audioData = [1],
      AudioChunk.startTime = 0, AudioChunk.endTime = 30\<rparr>)))) = 1 \<and>
   transcriptChunk (fst (processAudioChunk
      \<lparr>primary = \<lparr>buildThrows = None, sendThrows = None, awaited = Some ''hello''\<rparr>,
      secondary = \<lparr>apiKeySet = True, response = RestNoParts\<rparr>\<rparr>
      (fst (processAudioChunk
      \<lparr>primary = \<lparr>buildThrows = None, sendThrows = None, awaited = Some ''hello''\<rparr>,
      secondary = \<lparr>apiKeySet = True, response = RestNoParts\<rparr>\<rparr>
      \<lparr>wsSessions = Map.empty(''s1'' \<mapsto> \<lparr>geminiWs = Some OPEN, transcriptBuffer = [], lastChunkIndex = 0, isConnected = True\<rparr>),
      restSessions = Map.empty, sessionMetadata = Map.empty,
      transcriptChunk = [],
      appSession = Map.empty(''s1'' \<mapsto> \<lparr>userId = ''u1'', status = RECORDING, transcript = None, summary = None,
        stoppedAt = None, completedAt = None\<rparr>)\<rparr>
      \<lparr>AudioChunk.sessionId = ''s1'', AudioChunk.chunkIndex = 0, audioData = [1],
      AudioChunk.startTime = 0, AudioChunk.endTime = 30\<rparr>))
      \<lparr>AudioChunk.sessionId = ''s1'', AudioChunk.chunkIndex = 0, audioData = [1],
      AudioChunk.startTime = 0, AudioChunk.endTime = 30\<rparr>))
     = transcriptChunk (fst (processAudioChunk
      \<lparr>primary = \<lparr>buildThrows = None, sendThrows = None, awaited = Some ''hello''\<rparr>,
      secondary = \<lparr>apiKeySet = True, response = RestNoParts\<rparr>\<rparr>
      \<lparr>wsSessions = Map.empty(''s1'' \<mapsto> \<lparr>geminiWs = Some OPEN, transcriptBuffer = [], lastChunkIndex = 0, isConnected = True\<rparr>),
      restSessions = Map.empty, sessionMetadata = Map.empty,
      transcriptChunk = [],
      appSession = Map.empty(''s1'' \<mapsto> \<lparr>userId = ''u1'', status = RECORDING, transcript = None, summary = None,
        stoppedAt = None, completedAt = None\<rparr>)\<rparr>
      \<lparr>AudioChunk.sessionId = ''s1'', AudioChunk.chunkIndex = 0, audioData = [1],
      AudioChunk.startTime = 0, AudioChunk.endTime = 30\<rparr>))"
proof -
  let ?w = "\<lparr>wsSessions = Map.empty(''s1'' \<mapsto> \<lparr>geminiWs = Some OPEN, transcriptBuffer = [], lastChunkIndex = 0, isConnected = True\<rparr>),
      restSessions = Map.empty, sessionMetadata = Map.empty,
      transcriptChunk = [],
      appSession = Map.empty(''s1'' \<mapsto> \<lparr>userId = ''u1'', status = RECORDING, transcript = None, summary = None,
        stoppedAt = None, completedAt = None\<rparr>)\<rparr>"
  let ?env = "\<lparr>primary = \<lparr>buildThrows = None, sendThrows = None, awaited = Some ''hello''\<rparr>,
      secondary = \<lparr>apiKeySet = True, response = RestNoParts\<rparr>\<rparr>"
  let ?chunk = "\<lparr>AudioChunk.sessionId = ''s1'', AudioChunk.chunkIndex = 0, audioData = [1],
      AudioChunk.startTime = 0, AudioChunk.endTime = 30\<rparr>"
  have h: "length (filter (matches ''s1'' 0) (transcriptChunk ?w)) \<le> 1"
    by code_simp
  have k: "appSession ?w ''s1'' \<noteq> None"
    by simp
  have a: "''s1'' \<noteq> [] \<and> trim ''s1'' \<noteq> [] \<and> \<not> isPlaceholderClient ''hello''
             \<and> fitsInteger (0 * 30 + 30)"
    by code_simp
  have b: "AudioChunk.sessionId ?chunk = ''s1'' \<and> AudioChunk.chunkIndex ?chunk = 0
           \<and> \<not> isPlaceholder ''hello''
           \<and> fitsInteger 0 \<and> fitsInteger (AudioChunk.startTime ?chunk)
           \<and> fitsInteger (AudioChunk.endTime ?chunk)
           \<and> fst (transcribeChunk ?env ?w ?chunk) = Some ''hello''
           \<and> fst (transcribeChunk ?env (fst (processAudioChunk ?env ?w ?chunk)) ?chunk) = Some ''hello''"
    by code_simp
  from duplicate_submission [OF h k, of "''hello''" ?chunk ?env ?env] a b
  have "length (filter (matches ''s1'' 0)
          (transcriptChunk (fst (transcriptChunkHandler ?w ''s1'' ''hello'' 0)))) = 1"
   and "transcriptChunkHandler (fst (transcriptChunkHandler ?w ''s1'' ''hello'' 0)) ''s1'' ''hello'' 0
          = (fst (transcriptChunkHandler ?w ''s1'' ''hello'' 0), [])"
   and "length (filter (matches ''s1'' 0)
          (transcriptChunk (fst (processAudioChunk ?env ?w ?chunk)))) = 1"
   and "transcriptChunk (fst (processAudioChunk ?env (fst (processAudioChunk ?env ?w ?chunk)) ?chunk))
          = transcriptChunk (fst (processAudioChunk ?env ?w ?chunk))"
    by blast+
  with h k a b show ?thesis by simp
qed

text \<open>
  Claim C1 as stated fails on the \<open>processAudioChunk\<close> path: with \<open>hello world\<close>
  stored and the substring \<open>hello\<close> incoming, the row's text is replaced by \<open>hello\<close>
  and the running transcript grows.
\<close>

theorem duplicate_submission_counterexample:
  "includes_str ''hello world'' ''hello'' \<and>
   map TranscriptChunk.transcript (transcriptChunk (fst (processAudioChunk
      \<lparr>primary = \<lparr>buildThrows = None, sendThrows = None, awaited = Some ''hello''\<rparr>,
      secondary = \<lparr>apiKeySet = True, response = RestNoParts\<rparr>\<rparr>
      \<lparr>wsSessions = Map.empty(''s1'' \<mapsto> \<lparr>geminiWs = Some OPEN, transcriptBuffer = [], lastChunkIndex = 0, isConnected = True\<rparr>),
      restSessions = Map.empty, sessionMetadata = Map.empty,
      transcriptChunk = [\<lparr>chunkId = 1, sessionId = ''s1'', chunkIndex = 0, transcript = ''hello world'',
        startTime = 0, endTime = 30\<rparr>],
      appSession = Map.empty(''s1'' \<mapsto> \<lparr>userId = ''u1'', status = RECORDING, transcript = Some ''[0s - 30s]\<newline>hello world'', summary = None,
        stoppedAt = None, completedAt = None\<rparr>)\<rparr>
      \<lparr>AudioChunk.sessionId = ''s1'', AudioChunk.chunkIndex = 0, audioData = [1],
      AudioChunk.startTime = 0, AudioChunk.endTime = 30\<rparr>))) = [''hello''] \<and>
   map_option AppSession.transcript (appSession (fst (processAudioChunk
      \<lparr>primary = \<lparr>buildThrows = None, sendThrows = None, awaited = Some ''hello''\<rparr>,
      secondary = \<lparr>apiKeySet = True, response = RestNoParts\<rparr>\<rparr>
      \<lparr>wsSessions = Map.empty(''s1'' \<mapsto> \<lparr>geminiWs = Some OPEN, transcriptBuffer = [], lastChunkIndex = 0, isConnected = True\<rparr>),
      restSessions = Map.empty, sessionMetadata = Map.empty,
      transcriptChunk = [\<lparr>chunkId = 1, sessionId = ''s1'', chunkIndex = 0, transcript = ''hello world'',
        startTime = 0, endTime = 30\<rparr>],
      appSession = Map.empty(''s1'' \<mapsto> \<lparr>userId = ''u1'', status = RECORDING, transcript = Some ''[0s - 30s]\<newline>hello world'', summary = None,
        stoppedAt = None, completedAt = None\<rparr>)\<rparr>
      \<lparr>AudioChunk.sessionId = ''s1'', AudioChunk.chunkIndex = 0, audioData = [1],
      AudioChunk.startTime = 0, AudioChunk.endTime = 30\<rparr>)) ''s1'') = Some (Some ''[0s - 30s]\<newline>hello world hello'')"
  by code_simp

section \<open>Facts about the running transcript\<close>

lemma rangeHeader_nonempty: "rangeHeader startT endT \<noteq> []"
  by (simp add: rangeHeader_def)

lemma replaceRange_absent:
  "\<not> includes_str s hdr \<Longrightarrow> replaceRange hdr new s = s"
  by (induction s) (simp_all add: replaceRange.simps)

lemma prefix_of_shorter:
  assumes "prefix hs (xs @ ys)" "length hs \<le> length xs"
  shows "prefix hs xs"
  using assms by (metis prefix_length_prefix prefixI)

lemma replaceRange_skip:
  assumes "hdr \<noteq> []" "\<not> includes_str (pre @ butlast hdr) hdr"
  shows "replaceRange hdr new (pre @ hdr @ t) = pre @ replaceRange hdr new (hdr @ t)"
  using assms(2)
proof (induction pre)
  case Nil
  then show ?case by simp
next
  case (Cons c p)
  from Cons.prems have np: "\<not> prefix hdr ((c # p) @ butlast hdr)"
    and ni: "\<not> includes_str (p @ butlast hdr) hdr"
    by simp_all
  have "\<not> prefix hdr (c # p @ hdr @ t)"
  proof
    assume "prefix hdr (c # p @ hdr @ t)"
    moreover have "c # p @ hdr @ t = ((c # p) @ butlast hdr) @ ([last hdr] @ t)"
      using assms(1) by simp
    moreover have "length hdr \<le> length ((c # p) @ butlast hdr)"
      by simp
    ultimately have "prefix hdr ((c # p) @ butlast hdr)"
      by (metis prefix_of_shorter)
    with np show False by simp
  qed
  then have "replaceRange hdr new ((c # p) @ hdr @ t) = c # replaceRange hdr new (p @ hdr @ t)"
    by (simp add: replaceRange.simps)
  with Cons.IH [OF ni] show ?case by simp
qed

lemma replaceRange_block:
  assumes "hdr \<noteq> []" "CHR ''['' \<notin> set body" "rest = [] \<or> hd rest = CHR ''[''"
  shows "replaceRange hdr new (hdr @ body @ rest)
           = hdr @ [CHR 0x0A] @ combinedText body new @ replaceRange hdr new rest"
proof -
  obtain c cs where cs: "hdr @ body @ rest = c # cs"
    using assms(1) by (cases hdr) auto
  have all: "\<And>x. x \<in> set body \<Longrightarrow> notBracket x"
    using assms(2) by (auto simp: notBracket_def)
  have tr: "takeWhile notBracket rest = []" and dr: "dropWhile notBracket rest = rest"
    using assms(3) by (cases rest; simp add: notBracket_def)+
  have t: "takeWhile notBracket (body @ rest) = body"
    using all tr by simp
  have d: "dropWhile notBracket (body @ rest) = rest"
    using all dr by simp
  have pf: "(hdr \<noteq> [] \<and> prefix hdr (c # cs)) = True"
    using assms(1) by (simp add: cs [symmetric])
  have dp: "drop (length hdr) (c # cs) = body @ rest"
    by (simp add: cs [symmetric])
  have "replaceRange hdr new (c # cs)
          = hdr @ [CHR 0x0A] @ combinedText (takeWhile notBracket (drop (length hdr) (c # cs))) new
              @ replaceRange hdr new (dropWhile notBracket (drop (length hdr) (c # cs)))"
    by (subst replaceRange.simps(2)) (simp only: pf if_True)
  then have "replaceRange hdr new (c # cs)
          = hdr @ [CHR 0x0A] @ combinedText body new @ replaceRange hdr new rest"
    by (simp only: dp t d)
  then show ?thesis
    by (simp only: cs)
qed

lemma mergeRunningTranscript_block:
  assumes "stored = Some (pre @ rangeHeader startT endT @ body @ rest)"
      and "\<not> includes_str (pre @ butlast (rangeHeader startT endT)) (rangeHeader startT endT)"
      and "CHR ''['' \<notin> set body" and "rest = [] \<or> hd rest = CHR ''[''"
      and "\<not> includes_str rest (rangeHeader startT endT)"
  shows "mergeRunningTranscript stored startT endT new
           = pre @ rangeHeader startT endT @ [CHR 0x0A] @ combinedText body new @ rest"
proof -
  let ?h = "rangeHeader startT endT"
  have inc: "includes_str (pre @ ?h @ body @ rest) ?h"
    by (simp only: includes_str_iff) blast
  have "replaceRange ?h new (pre @ ?h @ (body @ rest))
          = pre @ replaceRange ?h new (?h @ (body @ rest))"
    using rangeHeader_nonempty assms(2) by (rule replaceRange_skip)
  also have "replaceRange ?h new (?h @ body @ rest)
               = ?h @ [CHR 0x0A] @ combinedText body new @ replaceRange ?h new rest"
    using rangeHeader_nonempty assms(3,4) by (rule replaceRange_block)
  also have "replaceRange ?h new rest = rest"
    using assms(5) by (rule replaceRange_absent)
  finally show ?thesis
    using inc by (simp add: mergeRunningTranscript_def assms(1))
qed

lemma mergeRunningTranscript_new:
  assumes "\<not> includes_str (case stored of None \<Rightarrow> [] | Some t \<Rightarrow> t) (rangeHeader startT endT)"
  shows "mergeRunningTranscript stored startT endT new
           = (if (case stored of None \<Rightarrow> [] | Some t \<Rightarrow> t) = []
              then rangeHeader startT endT @ [CHR 0x0A] @ new
              else (case stored of None \<Rightarrow> [] | Some t \<Rightarrow> t) @ [CHR 0x0A, CHR 0x0A]
                     @ rangeHeader startT endT @ [CHR 0x0A] @ new)"
  using assms by (simp add: mergeRunningTranscript_def Let_def)

text \<open>
  Claim C3 at concrete inputs. With \<open>hello\<close> stored for (0, 30), merging \<open>world\<close>
  for the same range gives one block with the text \<open>hello world\<close>, as the claim says.
  But the block's text is taken to end at the next \<open>[\<close>, not at the next header: with
  \<open>see [1] there\<close> stored, merging \<open>now\<close> gives \<open>see now[1] there\<close>, so the new
  text is not appended to the text of the block; and when another block follows, the
  merge removes the blank line before it, so that the next header is glued to the text.
  The last line shows the first of the two on the \<open>transcript:chunk\<close> path.
\<close>

theorem running_transcript_cut_at_bracket:
  "mergeRunningTranscript (Some ''[0s - 30s]\<newline>hello'') 0 30 ''world''
     = ''[0s - 30s]\<newline>hello world'' \<and>
   mergeRunningTranscript (Some ''[0s - 30s]\<newline>see [1] there'') 0 30 ''now''
     = ''[0s - 30s]\<newline>see now[1] there'' \<and>
   mergeRunningTranscript (Some ''[0s - 30s]\<newline>see [1] there'') 0 30 ''now''
     \<noteq> ''[0s - 30s]\<newline>see [1] there now'' \<and>
   mergeRunningTranscript (Some ''[0s - 30s]\<newline>hello\<newline>\<newline>[30s - 60s]\<newline>foo'') 0 30 ''world''
     = ''[0s - 30s]\<newline>hello world[30s - 60s]\<newline>foo'' \<and>
   map_option AppSession.transcript (appSession (fst (transcriptChunkHandler
        \<lparr>wsSessions = Map.empty(''s1'' \<mapsto> \<lparr>geminiWs = Some OPEN, transcriptBuffer = [],
                                        lastChunkIndex = 0, isConnected = True\<rparr>),
        restSessions = Map.empty, sessionMetadata = Map.empty,
        transcriptChunk = [\<lparr>chunkId = 1, sessionId = ''s1'', chunkIndex = 0,
          transcript = ''see [1] there'', startTime = 0, endTime = 30\<rparr>],
        appSession = Map.empty(''s1'' \<mapsto> \<lparr>userId = ''u1'', status = RECORDING,
          transcript = Some ''[0s - 30s]\<newline>see [1] there'', summary = None,
          stoppedAt = None, completedAt = None\<rparr>)\<rparr>
        ''s1'' ''now'' 0)) ''s1'')
     = Some (Some ''[0s - 30s]\<newline>see now[1] there'')"
  by code_simp

section \<open>Facts about chunk indices and time ranges\<close>

lemma sessionStartHandler_metadata:
  assumes "sid \<noteq> []" "trim sid \<noteq> []"
  shows "sessionMetadata (fst (sessionStartHandler env w sid uid recordingMode)) sid
           = Some (recordingMode, if recordingMode = ''TAB'' then 5 else 30)"
  using assms
  by (auto simp: sessionStartHandler_def Let_def split: prod.splits promise.splits)

lemma sessionStartHandler_duration:
  assumes "sid \<noteq> []" "trim sid \<noteq> []"
  shows "chunkDurationOf (fst (sessionStartHandler env w sid uid recordingMode)) sid
           = (if recordingMode = ''TAB'' then 5 else 30)"
  using sessionStartHandler_metadata [OF assms, of env w uid recordingMode]
  by (simp add: chunkDurationOf_def)

lemma audioChunkOf_fields:
  "AudioChunk.sessionId (audioChunkOf w sid bytes idx) = sid"
  "AudioChunk.chunkIndex (audioChunkOf w sid bytes idx) = idx"
  "AudioChunk.startTime (audioChunkOf w sid bytes idx) = idx * chunkDurationOf w sid"
  "AudioChunk.endTime (audioChunkOf w sid bytes idx) = (idx + 1) * chunkDurationOf w sid"
  by (simp_all add: audioChunkOf_def Let_def)

lemma audioChunkHandler_world:
  assumes "sid \<noteq> []" "trim sid \<noteq> []"
  shows "fst (audioChunkHandler env w sid bytes idx)
           = fst (processAudioChunk env w (audioChunkOf w sid bytes idx))"
  using assms by (simp add: audioChunkHandler_def split: prod.splits)

lemma chunkDurationOf_pos: "0 < chunkDurationOf w sid"
  by (auto simp: chunkDurationOf_def split: option.splits)

lemma audioChunkHandler_stored:
  assumes "sid \<noteq> []" "trim sid \<noteq> []"
      and "fst (transcribeChunk env w (audioChunkOf w sid bytes idx)) = Some text"
      and "\<not> isPlaceholder text"
      and "findFirst (transcriptChunk w) sid idx = None"
      and "appSession w sid = Some s"
      and "fitsInteger ((idx + 1) * chunkDurationOf w sid)"
  shows "findFirst (transcriptChunk (fst (audioChunkHandler env w sid bytes idx))) sid idx
           = Some \<lparr>chunkId = freshId (transcriptChunk w), sessionId = sid, chunkIndex = idx,
                   transcript = text, startTime = idx * chunkDurationOf w sid,
                   endTime = (idx + 1) * chunkDurationOf w sid\<rparr>"
    and "map_option AppSession.transcript
           (appSession (fst (audioChunkHandler env w sid bytes idx)) sid)
           = Some (Some (mergeRunningTranscript (AppSession.transcript s)
                     (idx * chunkDurationOf w sid) ((idx + 1) * chunkDurationOf w sid) text))"
proof -
  let ?chunk = "audioChunkOf w sid bytes idx"
  let ?w' = "fst (snd (transcribeChunk env w ?chunk))"
  let ?D = "chunkDurationOf w sid"
  let ?v = "updateSessionTranscript
              (?w'\<lparr>transcriptChunk := appendChunk (transcriptChunk ?w') sid idx text (idx * ?D) ((idx + 1) * ?D)\<rparr>)
              sid (idx * ?D) ((idx + 1) * ?D) text"
  have t: "transcriptChunk ?w' = transcriptChunk w" "appSession ?w' = appSession w"
    using transcribeChunk_tables [of env w ?chunk] by simp_all
  obtain n where "chunkDurationOf w sid = Suc n"
    using chunkDurationOf_pos [of w sid] by (cases "chunkDurationOf w sid") auto
  then have "idx \<le> (idx + 1) * ?D" by simp
  moreover have "idx * ?D \<le> (idx + 1) * ?D" by simp
  ultimately have b: "fitsInteger idx" "fitsInteger (idx * ?D)" "fitsInteger ((idx + 1) * ?D)"
    using assms(7) by (blast intro: fitsInteger_mono)+
  from assms(6) t have "appSession ?w' sid \<noteq> None" by simp
  from createChunk_Inr [OF this b, of "text"]
  have c: "createChunk ?w' sid idx text (idx * ?D) ((idx + 1) * ?D)
             = Inr (appendChunk (transcriptChunk ?w') sid idx text (idx * ?D) ((idx + 1) * ?D))" .
  have st: "storeChunk ?w' ?chunk text = Inr ?v"
    using assms(4,5) t c by (simp add: storeChunk_def audioChunkOf_fields)
  have "fst (audioChunkHandler env w sid bytes idx) = fst (processAudioChunk env w ?chunk)"
    using assms(1,2) by (simp add: audioChunkHandler_def split: prod.splits)
  with processAudioChunk_Some(1) [OF assms(3) st]
  have w: "fst (audioChunkHandler env w sid bytes idx) = ?v" by simp
  show "findFirst (transcriptChunk (fst (audioChunkHandler env w sid bytes idx))) sid idx
           = Some \<lparr>chunkId = freshId (transcriptChunk w), sessionId = sid, chunkIndex = idx,
                   transcript = text, startTime = idx * ?D, endTime = (idx + 1) * ?D\<rparr>"
    using w t findFirst_create [OF assms(5)] by simp
  show "map_option AppSession.transcript
           (appSession (fst (audioChunkHandler env w sid bytes idx)) sid)
           = Some (Some (mergeRunningTranscript (AppSession.transcript s)
                     (idx * ?D) ((idx + 1) * ?D) text))"
    using w t assms(6) by (simp add: updateSessionTranscript_def)
qed

lemma transcriptChunkHandler_created:
  assumes "sid \<noteq> []" "trim sid \<noteq> []" "\<not> isPlaceholderClient text"
      and "findFirst (transcriptChunk w) sid idx = None"
      and "appSession w sid \<noteq> None" and "fitsInteger ((idx + 1) * 30)"
  shows "findFirst (transcriptChunk (fst (transcriptChunkHandler w sid text idx))) sid idx
           = Some \<lparr>chunkId = freshId (transcriptChunk w), sessionId = sid, chunkIndex = idx,
                   transcript = trim text, startTime = idx * 30, endTime = (idx + 1) * 30\<rparr>"
proof -
  from assms(6) have "fitsInteger (idx * 30 + 30)" by (simp add: fitsInteger_def)
  from handler_create [OF assms(1-5) this] findFirst_create [OF assms(4)] show ?thesis
    by simp
qed

lemma recorderStep_cases:
  "(snd (recorderStep r x) = [] \<and> chunkIndexRef (fst (recorderStep r x)) = chunkIndexRef r)
   \<or> (\<exists>sid bytes. snd (recorderStep r x) = [AudioChunkEvent sid bytes (chunkIndexRef r)]
        \<and> chunkIndexRef (fst (recorderStep r x)) = chunkIndexRef r + 1)"
  by (cases x) (auto simp: ondataavailable_def onpause_def onresume_def stopRecording_def Let_def)

lemma runRecorder_indices:
  "chunkIndexRef r \<le> chunkIndexRef (fst (runRecorder r xs)) \<and>
   sorted_wrt (<) (map eventIndex (snd (runRecorder r xs))) \<and>
   (\<forall>i\<in>set (map eventIndex (snd (runRecorder r xs))).
      chunkIndexRef r \<le> i \<and> i < chunkIndexRef (fst (runRecorder r xs)))"
proof (induction xs arbitrary: r)
  case Nil
  then show ?case by simp
next
  case (Cons x xs)
  obtain r1 out1 where s: "recorderStep r x = (r1, out1)"
    by (cases "recorderStep r x")
  obtain r2 out2 where t: "runRecorder r1 xs = (r2, out2)"
    by (cases "runRecorder r1 xs")
  from Cons.IH [of r1] t
  have ih: "chunkIndexRef r1 \<le> chunkIndexRef r2" "sorted_wrt (<) (map eventIndex out2)"
    "\<forall>i\<in>set (map eventIndex out2). chunkIndexRef r1 \<le> i \<and> i < chunkIndexRef r2"
    by simp_all
  from recorderStep_cases [of r x] s
  consider "out1 = []" "chunkIndexRef r1 = chunkIndexRef r"
    | sid bytes where "out1 = [AudioChunkEvent sid bytes (chunkIndexRef r)]"
        "chunkIndexRef r1 = chunkIndexRef r + 1"
    by auto
  then show ?case
  proof cases
    case 1
    with ih s t show ?thesis by simp
  next
    case 2
    with ih s t show ?thesis
      by (auto simp: sorted_wrt_append)
  qed
qed

lemma runRecorder_distinct:
  "distinct (map eventIndex (snd (runRecorder r xs)))"
  using runRecorder_indices [of r xs] strict_sorted_iff by blast

text \<open>
  Claim C4, as amended. The \<open>session:start\<close> handler stores a chunk duration \<open>D\<close> of 5
  seconds for the mode \<open>TAB\<close> and 30 seconds otherwise. The recorder never sends two
  audio chunks with the same index. For a session that has a row, and an index \<open>i\<close>
  whose time range fits the columns: on the \<open>audio:chunk\<close> path an accepted chunk with
  index \<open>i\<close> and no row yet gets a new row with \<open>startTime = i * D\<close> and
  \<open>endTime = (i + 1) * D\<close> and is merged into the running transcript under that
  range; on the \<open>transcript:chunk\<close> path a new row has \<open>startTime = i * 30\<close> and
  \<open>endTime = (i + 1) * 30\<close>, whatever the session's mode.
\<close>

theorem chunk_time_ranges:
  assumes "sid \<noteq> []" and "trim sid \<noteq> []"
  shows "chunkDurationOf (fst (sessionStartHandler senv before sid uid recordingMode)) sid
           = (if recordingMode = ''TAB'' then 5 else 30)
       \<and> distinct (map eventIndex (snd (runRecorder r xs)))
       \<and> (fst (transcribeChunk env w (audioChunkOf w sid bytes idx)) = Some final
           \<and> \<not> isPlaceholder final \<and> findFirst (transcriptChunk w) sid idx = None
           \<and> appSession w sid = Some s
           \<and> fitsInteger ((idx + 1) * chunkDurationOf w sid)
           \<longrightarrow> findFirst (transcriptChunk (fst (audioChunkHandler env w sid bytes idx))) sid idx
                 = Some \<lparr>chunkId = freshId (transcriptChunk w), sessionId = sid, chunkIndex = idx,
                         transcript = final, startTime = idx * chunkDurationOf w sid,
                         endTime = (idx + 1) * chunkDurationOf w sid\<rparr>
               \<and> map_option AppSession.transcript
                  (appSession (fst (audioChunkHandler env w sid bytes idx)) sid)
                 = Some (Some (mergeRunningTranscript (AppSession.transcript s)
                     (idx * chunkDurationOf w sid) ((idx + 1) * chunkDurationOf w sid) final)))
       \<and> (\<not> isPlaceholderClient spoken \<and> findFirst (transcriptChunk w) sid idx = None
           \<and> appSession w sid \<noteq> None \<and> fitsInteger ((idx + 1) * 30)
           \<longrightarrow> findFirst (transcriptChunk (fst (transcriptChunkHandler w sid spoken idx))) sid idx
                 = Some \<lparr>chunkId = freshId (transcriptChunk w), sessionId = sid, chunkIndex = idx,
                         transcript = trim spoken, startTime = idx * 30, endTime = (idx + 1) * 30\<rparr>)"
  using sessionStartHandler_duration [OF assms, of senv before uid recordingMode]
        runRecorder_distinct [of r xs]
        audioChunkHandler_stored [OF assms, of env w bytes idx final s]
        transcriptChunkHandler_created [OF assms, of spoken w idx]
  by blast

theorem chunk_time_ranges_witness:
  "(''s1'' \<noteq> [] \<and> trim ''s1'' \<noteq> []) \<and>
   chunkDurationOf (fst (sessionStartHandler \<lparr>keySet = True, socketThrows = None\<rparr>
      \<lparr>wsSessions = Map.empty, restSessions = Map.empty, sessionMetadata = Map.empty,
      transcriptChunk = [],
      appSession = Map.empty(''s1'' \<mapsto> \<lparr>userId = ''u1'', status = RECORDING, transcript = None,
        summary = None, stoppedAt = None, completedAt = None\<rparr>)\<rparr> ''s1'' ''u1'' ''TAB'')) ''s1'' = 5 \<and>
   distinct (map eventIndex (snd (runRecorder \<lparr>audioChunksRef = [], chunkIndexRef = 0, isPausedRef = False, sessionIdRef = ''s1''\<rparr>
      [DataAvailable [1], OnPause, DataAvailable [2], OnResume, DataAvailable [3], StopRecording]))) \<and>
   (fst (transcribeChunk
      \<lparr>primary = \<lparr>buildThrows = None, sendThrows = None, awaited = Some ''hi''\<rparr>,
      secondary = \<lparr>apiKeySet = True, response = RestNoParts\<rparr>\<rparr>
      \<lparr>wsSessions = Map.empty(''s1'' \<mapsto> \<lparr>geminiWs = Some OPEN, transcriptBuffer = [], lastChunkIndex = 0, isConnected = True\<rparr>),
      restSessions = Map.empty, sessionMetadata = Map.empty(''s1'' \<mapsto> (''TAB'', 5)),
      transcriptChunk = [],
      appSession = Map.empty(''s1'' \<mapsto> \<lparr>userId = ''u1'', status = RECORDING, transcript = None,
        summary = None, stoppedAt = None, completedAt = None\<rparr>)\<rparr>
      (audioChunkOf
      \<lparr>wsSessions = Map.empty(''s1'' \<mapsto> \<lparr>geminiWs = Some OPEN, transcriptBuffer = [], lastChunkIndex = 0, isConnected = True\<rparr>),
      restSessions = Map.empty, sessionMetadata = Map.empty(''s1'' \<mapsto> (''TAB'', 5)),
      transcriptChunk = [],
      appSession = Map.empty(''s1'' \<mapsto> \<lparr>userId = ''u1'', status = RECORDING, transcript = None,
        summary = None, stoppedAt = None, completedAt = None\<rparr>)\<rparr> ''s1'' [7] 2)) = Some ''hi''
    \<and> \<not> isPlaceholder ''hi''
    \<and> findFirst (transcriptChunk
      \<lparr>wsSessions = Map.empty(''s1'' \<mapsto> \<lparr>geminiWs = Some OPEN, transcriptBuffer = [], lastChunkIndex = 0, isConnected = True\<rparr>),
      restSessions = Map.empty, sessionMetadata = Map.empty(''s1'' \<mapsto> (''TAB'', 5)),
      transcriptChunk = [],
      appSession = Map.empty(''s1'' \<mapsto> \<lparr>userId = ''u1'', status = RECORDING, transcript = None,
        summary = None, stoppedAt = None, completedAt = None\<rparr>)\<rparr>) ''s1'' 2 = None
    \<and> appSession
      \<lparr>wsSessions = Map.empty(''s1'' \<mapsto> \<lparr>geminiWs = Some OPEN, transcriptBuffer = [], lastChunkIndex = 0, isConnected = True\<rparr>),
      restSessions = Map.empty, sessionMetadata = Map.empty(''s1'' \<mapsto> (''TAB'', 5)),
      transcriptChunk = [],
      appSession = Map.empty(''s1'' \<mapsto> \<lparr>userId = ''u1'', status = RECORDING, transcript = None,
        summary = None, stoppedAt = None, completedAt = None\<rparr>)\<rparr> ''s1'' = Some \<lparr>userId = ''u1'', status = RECORDING, transcript = None,
        summary = None, stoppedAt = None, completedAt = None\<rparr>
    \<and> fitsInteger ((2 + 1) * chunkDurationOf
      \<lparr>wsSessions = Map.empty(''s1'' \<mapsto> \<lparr>geminiWs = Some OPEN, transcriptBuffer = [], lastChunkIndex = 0, isConnected = True\<rparr>),
      restSessions = Map.empty, sessionMetadata = Map.empty(''s1'' \<mapsto> (''TAB'', 5)),
      transcriptChunk = [],
      appSession = Map.empty(''s1'' \<mapsto> \<lparr>userId = ''u1'', status = RECORDING, transcript = None,
        summary = None, stoppedAt = None, completedAt = None\<rparr>)\<rparr> ''s1'')) \<and>
   findFirst (transcriptChunk (fst (audioChunkHandler
      \<lparr>primary = \<lparr>buildThrows = None, sendThrows = None, awaited = Some ''hi''\<rparr>,
      secondary = \<lparr>apiKeySet = True, response = RestNoParts\<rparr>\<rparr>
      \<lparr>wsSessions = Map.empty(''s1'' \<mapsto> \<lparr>geminiWs = Some OPEN, transcriptBuffer = [], lastChunkIndex = 0, isConnected = True\<rparr>),
      restSessions = Map.empty, sessionMetadata = Map.empty(''s1'' \<mapsto> (''TAB'', 5)),
      transcriptChunk = [],
      appSession = Map.empty(''s1'' \<mapsto> \<lparr>userId = ''u1'', status = RECORDING, transcript = None,
        summary = None, stoppedAt = None, completedAt = None\<rparr>)\<rparr> ''s1'' [7] 2))) ''s1'' 2
     = Some \<lparr>chunkId = 1, sessionId = ''s1'', chunkIndex = 2, transcript = ''hi'',
              startTime = 10, endTime = 15\<rparr> \<and>
   (\<not> isPlaceholderClient ''hi'' \<and> fitsInteger ((2 + 1) * 30)) \<and>
   findFirst (transcriptChunk (fst (transcriptChunkHandler
      \<lparr>wsSessions = Map.empty(''s1'' \<mapsto> \<lparr>geminiWs = Some OPEN, transcriptBuffer = [], lastChunkIndex = 0, isConnected = True\<rparr>),
      restSessions = Map.empty, sessionMetadata = Map.empty(''s1'' \<mapsto> (''TAB'', 5)),
      transcriptChunk = [],
      appSession = Map.empty(''s1'' \<mapsto> \<lparr>userId = ''u1'', status = RECORDING, transcript = None,
        summary = None, stoppedAt = None, completedAt = None\<rparr>)\<rparr> ''s1'' ''hi'' 2))) ''s1'' 2
     = Some \<lparr>chunkId = 1, sessionId = ''s1'', chunkIndex = 2, transcript = ''hi'',
              startTime = 60, endTime = 90\<rparr>"
proof -
  let ?w = "\<lparr>wsSessions = Map.empty(''s1'' \<mapsto> \<lparr>geminiWs = Some OPEN, transcriptBuffer = [], lastChunkIndex = 0, isConnected = True\<rparr>),
      restSessions = Map.empty, sessionMetadata = Map.empty(''s1'' \<mapsto> (''TAB'', 5)),
      transcriptChunk = [],
      appSession = Map.empty(''s1'' \<mapsto> \<lparr>userId = ''u1'', status = RECORDING, transcript = None,
        summary = None, stoppedAt = None, completedAt = None\<rparr>)\<rparr>"
  let ?init = "\<lparr>wsSessions = Map.empty, restSessions = Map.empty, sessionMetadata = Map.empty,
      transcriptChunk = [],
      appSession = Map.empty(''s1'' \<mapsto> \<lparr>userId = ''u1'', status = RECORDING, transcript = None,
        summary = None, stoppedAt = None, completedAt = None\<rparr>)\<rparr>"
  let ?env = "\<lparr>primary = \<lparr>buildThrows = None, sendThrows = None, awaited = Some ''hi''\<rparr>,
      secondary = \<lparr>apiKeySet = True, response = RestNoParts\<rparr>\<rparr>"
  let ?senv = "\<lparr>keySet = True, socketThrows = None\<rparr>"
  let ?s = "\<lparr>userId = ''u1'', status = RECORDING, transcript = None,
        summary = None, stoppedAt = None, completedAt = None\<rparr>"
  have h: "''s1'' \<noteq> []" "trim ''s1'' \<noteq> []"
    by code_simp+
  have a: "fst (transcribeChunk ?env ?w (audioChunkOf ?w ''s1'' [7] 2)) = Some ''hi''
           \<and> \<not> isPlaceholder ''hi'' \<and> findFirst (transcriptChunk ?w) ''s1'' 2 = None
           \<and> appSession ?w ''s1'' = Some ?s
           \<and> fitsInteger ((2 + 1) * chunkDurationOf ?w ''s1'')"
    by code_simp
  have c: "\<not> isPlaceholderClient ''hi'' \<and> findFirst (transcriptChunk ?w) ''s1'' 2 = None
           \<and> appSession ?w ''s1'' \<noteq> None \<and> fitsInteger ((2 + 1) * 30)"
    by code_simp
  have d: "chunkDurationOf ?w ''s1'' = 5" "freshId (transcriptChunk ?w) = 1" "trim ''hi'' = ''hi''"
    by code_simp+
  from chunk_time_ranges [OF h, where senv = ?senv and before = ?init and uid = "''u1''"
         and recordingMode = "''TAB''" and r = "\<lparr>audioChunksRef = [], chunkIndexRef = 0, isPausedRef = False, sessionIdRef = ''s1''\<rparr>"
         and xs = "[DataAvailable [1], OnPause, DataAvailable [2], OnResume, DataAvailable [3], StopRecording]"
         and env = ?env and w = ?w and bytes = "[7]" and idx = 2 and final = "''hi''" and s = ?s
         and spoken = "''hi''"] a c
  have "chunkDurationOf (fst (sessionStartHandler ?senv ?init ''s1'' ''u1'' ''TAB'')) ''s1''
          = (if ''TAB'' = ''TAB'' then 5 else 30)"
   and "distinct (map eventIndex (snd (runRecorder \<lparr>audioChunksRef = [], chunkIndexRef = 0, isPausedRef = False, sessionIdRef = ''s1''\<rparr>
          [DataAvailable [1], OnPause, DataAvailable [2], OnResume, DataAvailable [3], StopRecording])))"
   and "findFirst (transcriptChunk (fst (audioChunkHandler ?env ?w ''s1'' [7] 2))) ''s1'' 2
          = Some \<lparr>chunkId = freshId (transcriptChunk ?w), sessionId = ''s1'', chunkIndex = 2,
                   transcript = ''hi'', startTime = 2 * chunkDurationOf ?w ''s1'',
                   endTime = (2 + 1) * chunkDurationOf ?w ''s1''\<rparr>"
   and "findFirst (transcriptChunk (fst (transcriptChunkHandler ?w ''s1'' ''hi'' 2))) ''s1'' 2
          = Some \<lparr>chunkId = freshId (transcriptChunk ?w), sessionId = ''s1'', chunkIndex = 2,
                   transcript = trim ''hi'', startTime = 2 * 30, endTime = (2 + 1) * 30\<rparr>"
    by blast+
  with h a c d show ?thesis by simp
qed

text \<open>
  Claim C4 as stated fails on the \<open>transcript:chunk\<close> path of a \<open>TAB\<close> session: the
  duration is 5, but the row of index 1 gets the range 30 to 60.
\<close>

theorem chunk_time_ranges_counterexample:
  "chunkDurationOf (fst (sessionStartHandler \<lparr>keySet = True, socketThrows = None\<rparr>
      \<lparr>wsSessions = Map.empty, restSessions = Map.empty, sessionMetadata = Map.empty,
      transcriptChunk = [],
      appSession = Map.empty(''s1'' \<mapsto> \<lparr>userId = ''u1'', status = RECORDING, transcript = None,
        summary = None, stoppedAt = None, completedAt = None\<rparr>)\<rparr> ''s1'' ''u1'' ''TAB'')) ''s1'' = 5 \<and>
   map (\<lambda>row. (TranscriptChunk.startTime row, TranscriptChunk.endTime row))
     (transcriptChunk (fst (transcriptChunkHandler
        (fst (sessionStartHandler \<lparr>keySet = True, socketThrows = None\<rparr>
      \<lparr>wsSessions = Map.empty, restSessions = Map.empty, sessionMetadata = Map.empty,
      transcriptChunk = [],
      appSession = Map.empty(''s1'' \<mapsto> \<lparr>userId = ''u1'', status = RECORDING, transcript = None,
        summary = None, stoppedAt = None, completedAt = None\<rparr>)\<rparr> ''s1'' ''u1'' ''TAB''))
        ''s1'' ''hello'' 1))) = [(30, 60)]"
  by code_simp

text \<open>
  What does hold of a dropped chunk: when no backend's answer is accepted, or the accepted
  answer is a placeholder, \<open>processAudioChunk\<close> leaves both tables as they were. And
  when the row cannot be created, because the session has no row or a number does not
  fit its column, the promise is rejected, the tables stay as they were, and the
  \<open>audio:chunk\<close> handler reports the failure to the client.
\<close>

lemma dropped_chunk_keeps_tables:
  assumes "fst (transcribeChunk env w chunk) = None
           \<or> (\<exists>t. fst (transcribeChunk env w chunk) = Some t \<and> isPlaceholder t)"
  shows "transcriptChunk (fst (processAudioChunk env w chunk)) = transcriptChunk w"
    and "appSession (fst (processAudioChunk env w chunk)) = appSession w"
proof -
  let ?w' = "fst (snd (transcribeChunk env w chunk))"
  have "fst (processAudioChunk env w chunk) = ?w'"
  proof (cases "fst (transcribeChunk env w chunk)")
    case None
    then show ?thesis by (simp add: processAudioChunk_None)
  next
    case (Some t)
    with assms have "isPlaceholder t" by simp
    then have "storeChunk ?w' chunk t = Inr ?w'" by (simp add: storeChunk_def)
    from processAudioChunk_Some(1) [OF Some this] show ?thesis .
  qed
  then show "transcriptChunk (fst (processAudioChunk env w chunk)) = transcriptChunk w"
    and "appSession (fst (processAudioChunk env w chunk)) = appSession w"
    using transcribeChunk_tables [of env w chunk] by simp_all
qed

lemma failed_create_rejects:
  assumes "fst (transcribeChunk env w chunk) = Some t" and "\<not> isPlaceholder t"
      and "findFirst (transcriptChunk w) (AudioChunk.sessionId chunk) (AudioChunk.chunkIndex chunk) = None"
      and "appSession w (AudioChunk.sessionId chunk) = None
           \<or> \<not> fitsInteger (AudioChunk.chunkIndex chunk)
           \<or> \<not> fitsInteger (AudioChunk.startTime chunk)
           \<or> \<not> fitsInteger (AudioChunk.endTime chunk)"
  shows "\<exists>e. processAudioChunkOutcome env w chunk = Rejected e"
    and "transcriptChunk (fst (processAudioChunk env w chunk)) = transcriptChunk w"
    and "appSession (fst (processAudioChunk env w chunk)) = appSession w"
proof -
  let ?w' = "fst (snd (transcribeChunk env w chunk))"
  have t: "transcriptChunk ?w' = transcriptChunk w" "appSession ?w' = appSession w"
    using transcribeChunk_tables [of env w chunk] by simp_all
  from assms(4) t
  obtain e where "createChunk ?w' (AudioChunk.sessionId chunk) (AudioChunk.chunkIndex chunk) t
                    (AudioChunk.startTime chunk) (AudioChunk.endTime chunk) = Inl e"
    using createChunk_Inl [of ?w' "AudioChunk.sessionId chunk" "AudioChunk.chunkIndex chunk"
            "AudioChunk.startTime chunk" "AudioChunk.endTime chunk" t]
    by auto
  with assms(2,3) t have st: "storeChunk ?w' chunk t = Inl e"
    by (simp add: storeChunk_def)
  from processAudioChunk_throws [OF assms(1) st] t
  show "\<exists>e. processAudioChunkOutcome env w chunk = Rejected e"
    and "transcriptChunk (fst (processAudioChunk env w chunk)) = transcriptChunk w"
    and "appSession (fst (processAudioChunk env w chunk)) = appSession w"
    by simp_all
qed

lemma audioChunkHandler_rejected:
  assumes "sid \<noteq> []" "trim sid \<noteq> []"
      and "processAudioChunkOutcome env w (audioChunkOf w sid bytes idx) = Rejected e"
      and "\<not> includes_str (messageOr [] e) ''no active WebSocket session''"
  shows "Emit (AudioError (''Failed to process chunk '' @ showNat idx) (Some idx))
           \<in> set (snd (audioChunkHandler env w sid bytes idx))"
  using assms by (simp add: audioChunkHandler_def split: prod.splits)

end
